theory Spec2Isabelle
  imports Complex_Main "HOL-Library.Sublist" "HOL-Library.Char_ord" "HOL-Library.List_Lexorder"
begin

section \<open>Python strings\<close>

text \<open>
  The notebook \<^verbatim>\<open>SOS_CFSR_Lean.ipynb\<close> builds file names and captions with f-strings,
  \<^verbatim>\<open>str.zfill\<close> and \<^verbatim>\<open>strftime\<close>. A Python \<^verbatim>\<open>str\<close> of ASCII text is a \<open>string\<close>;
  \<^verbatim>\<open>f'{n}'\<close> of an integer is its decimal representation.
\<close>

definition digit_char :: "nat \<Rightarrow> char" where
  "digit_char d = ''0123456789'' ! d"

fun str_nat :: "nat \<Rightarrow> string" where
  "str_nat n = (if n < 10 then [digit_char n] else str_nat (n div 10) @ [digit_char (n mod 10)])"

declare str_nat.simps [simp del]

definition str_int :: "int \<Rightarrow> string" where
  "str_int i = (if i < 0 then CHR ''-'' # str_nat (nat (- i)) else str_nat (nat i))"

definition is_digit :: "char \<Rightarrow> bool" where
  "is_digit c = (48 \<le> (of_char c :: nat) \<and> (of_char c :: nat) \<le> 57)"

text \<open>
  \<^verbatim>\<open>s.zfill(w)\<close>: a string at least \<open>w\<close> long is returned as it is; otherwise zeros are
  inserted on the left, after a leading sign.
\<close>

definition zfill :: "nat \<Rightarrow> string \<Rightarrow> string" where
  "zfill w s =
     (if w \<le> length s then s
      else (case s of
              [] \<Rightarrow> replicate w CHR ''0''
            | c # cs \<Rightarrow>
                if c = CHR ''+'' \<or> c = CHR ''-''
                then c # replicate (w - length s) CHR ''0'' @ cs
                else replicate (w - length s) CHR ''0'' @ s))"

text \<open>The lines of a text: every line ends at its newline character; an unfinished last
  line is a line too.\<close>

fun split_lines_acc :: "string \<Rightarrow> string \<Rightarrow> string list" where
  "split_lines_acc cur [] = (if cur = [] then [] else [cur])"
| "split_lines_acc cur (c # cs) =
     (if c = CHR 0x0A then cur # split_lines_acc [] cs else split_lines_acc (cur @ [c]) cs)"

definition split_lines :: "string \<Rightarrow> string list" where
  "split_lines s = split_lines_acc [] s"

section \<open>Errors and the file system\<close>

datatype py_error =
  KeyError | NameError | ValueError | IndexError | FileNotFoundError | DimensionalityError

text \<open>
  A saved figure is kept as the list of plot layers it was drawn from; the notebook writes
  figures (PNG and JPEG), the output of \<^verbatim>\<open>pngquant\<close> on a PNG, and text files. Files that
  were on disk before the run may hold anything (\<open>Blob\<close>).

  The file system maps a path, written as the notebook writes it (relative to the working
  directory), to the content of the file there. Directories are not modelled: cell 16
  creates the four output directories with \<^verbatim>\<open>mkdir -p\<close> before any file is written, and
  changes no file. The plotting calls themselves (projection, contouring, barbs) are taken
  to succeed on the arrays they are given.
\<close>

datatype layer =
    Contourf "real list" "real list" "real list list" "int list"
  | Contour "real list" "real list" "real list list" "int list"
  | Barbs "real list" "real list" "real list list" "real list list"
  | Colorbar "int list"
  | Title string
  | Feature string

type_synonym figure = "layer list"

datatype content = Picture figure | Quantized content | Text string | Blob nat

type_synonym filesystem = "string \<Rightarrow> content option"

section \<open>Output directories (cells 12 and 14)\<close>

definition caseDir :: string where
  "caseDir = ''SS1993''"

definition prodDir :: string where
  "prodDir = ''850T_Z_Wind''"

definition graphicsDir :: string where
  "graphicsDir = caseDir @ ''/'' @ prodDir @ ''/2048/''"

definition labelsDir :: string where
  "labelsDir = caseDir @ ''/'' @ prodDir @ ''/labels/''"

definition mediaDir :: string where
  "mediaDir = caseDir @ ''/'' @ prodDir @ ''/media/''"

definition playlistDir :: string where
  "playlistDir = caseDir @ ''/'' @ prodDir @ ''/playlist/''"

section \<open>The playlist file (cells 72 and 74)\<close>

definition playlistFname :: string where
  "playlistFname = playlistDir @ ''playlist.sos''"

definition subCat :: string where
  "subCat = ''CFSR''"

definition cRet :: string where
  "cRet = ''\<newline>''"

definition nameStr :: string where
  "nameStr = ''CFSR T/Z/Wind Superstorm 93''"

definition descriptionStr :: string where
  "descriptionStr = ''{{CFSR T/Z/Wind Superstorm 93}}''"

definition creaName :: string where
  "creaName = ''Rovin Lazyle''"

text \<open>\<^verbatim>\<open>open(name, 'w')\<close> creates the file empty, or empties it; \<^verbatim>\<open>write\<close> appends to
  what the handle has written so far. Nothing else writes to the file while the handle is
  open, so the text is kept in the file itself rather than in a buffer.\<close>

definition open_w :: "string \<Rightarrow> filesystem \<Rightarrow> filesystem" where
  "open_w name fs = fs(name \<mapsto> Text [])"

definition write_str :: "string \<Rightarrow> string \<Rightarrow> filesystem \<Rightarrow> filesystem" where
  "write_str name s fs =
     (case fs name of Some (Text old) \<Rightarrow> fs(name \<mapsto> Text (old @ s)) | _ \<Rightarrow> fs(name \<mapsto> Text s))"

definition playlist_writes :: "string list" where
  "playlist_writes =
     [ ''name = '' @ nameStr @ cRet,
       ''description = '' @ descriptionStr @ cRet,
       ''pip = ../labels/colorbar.png'' @ cRet,
       ''pipheight = 10'' @ cRet,
       ''pipvertical = -35'' @ cRet,
       ''label = ../labels/labels.txt'' @ cRet,
       ''layer = Grids'' @ cRet,
       ''layerdata = ../2048'' @ cRet,
       ''firstdwell = 2000'' @ cRet,
       ''lastdwell = 3000'' @ cRet,
       ''fps = 8'' @ cRet,
       ''zrotationenable = 1'' @ cRet,
       ''zfps = 30'' @ cRet,
       ''subcategory = '' @ subCat @ cRet,
       ''Creator = '' @ creaName @ cRet ]"

definition write_playlist :: "filesystem \<Rightarrow> filesystem" where
  "write_playlist fs = fold (write_str playlistFname) playlist_writes (open_w playlistFname fs)"

text \<open>The key of a playlist line is the text before its first \<^verbatim>\<open> = \<close>.\<close>

fun line_key :: "string \<Rightarrow> string" where
  "line_key [] = []"
| "line_key (c # cs) = (if prefix '' = '' (c # cs) then [] else c # line_key cs)"

definition line_value :: "string \<Rightarrow> string" where
  "line_value l = drop (length (line_key l) + 3) l"

section \<open>Dates and times (cells 22, 26, 28)\<close>

text \<open>
  \<^verbatim>\<open>datetime(y, m, d, H, M)\<close> is a record of its fields. A pandas timestamp is a count of
  time units since 1970-01-01 00:00; the notebook's times are whole minutes, so the count
  is kept in minutes. The day number of a date and its inverse follow CPython's
  \<^verbatim>\<open>_ymd2ord\<close> and \<^verbatim>\<open>_ord2ymd\<close> (proleptic Gregorian calendar, day 1 is 0001-01-01).
\<close>

record datetime =
  year :: int
  month :: int
  day :: int
  hour :: int
  minute :: int

type_synonym timestamp = int

definition is_leap :: "int \<Rightarrow> bool" where
  "is_leap y = (y mod 4 = 0 \<and> (y mod 100 \<noteq> 0 \<or> y mod 400 = 0))"

definition days_in_month :: "int \<Rightarrow> int \<Rightarrow> int" where
  "days_in_month y m =
     (if m = 2 then (if is_leap y then 29 else 28)
      else if m = 4 \<or> m = 6 \<or> m = 9 \<or> m = 11 then 30 else 31)"

definition days_before_year :: "int \<Rightarrow> int" where
  "days_before_year y = (y - 1) * 365 + (y - 1) div 4 - (y - 1) div 100 + (y - 1) div 400"

definition days_before_month :: "int \<Rightarrow> int \<Rightarrow> int" where
  "days_before_month y m = (\<Sum>k \<leftarrow> [1..<nat m]. days_in_month y (int k))"

definition ymd2ord :: "int \<Rightarrow> int \<Rightarrow> int \<Rightarrow> int" where
  "ymd2ord y m d = days_before_year y + days_before_month y m + d"

definition ord2ymd :: "int \<Rightarrow> int \<times> int \<times> int" where
  "ord2ymd n0 =
     (let n = n0 - 1;
          n400 = n div 146097; n = n mod 146097;
          n100 = n div 36524; n = n mod 36524;
          n4 = n div 1461; n = n mod 1461;
          n1 = n div 365; n = n mod 365;
          y = n400 * 400 + 1 + n100 * 100 + n4 * 4 + n1
      in if n1 = 4 \<or> n100 = 4 then (y - 1, 12, 31)
         else
           (let m = (n + 50) div 32;
                preceding = days_before_month y m
            in if preceding > n
               then (y, m - 1, n - (preceding - days_in_month y (m - 1)) + 1)
               else (y, m, n - preceding + 1)))"

definition epoch_ord :: int where
  "epoch_ord = 719163"

definition to_timestamp :: "datetime \<Rightarrow> timestamp" where
  "to_timestamp t =
     ((ymd2ord (year t) (month t) (day t) - epoch_ord) * 24 + hour t) * 60 + minute t"

definition of_timestamp :: "timestamp \<Rightarrow> datetime" where
  "of_timestamp ts =
     (case ord2ymd (ts div 1440 + epoch_ord) of
        (y, m, d) \<Rightarrow>
          \<lparr> year = y, month = m, day = d, hour = (ts mod 1440) div 60, minute = ts mod 60 \<rparr>)"

text \<open>\<^verbatim>\<open>strftime("%m/%d/%Y %H UTC")\<close>: month, day and hour on two digits, the year on four.\<close>

definition strftime_label :: "timestamp \<Rightarrow> string" where
  "strftime_label ts =
     (let t = of_timestamp ts
      in zfill 2 (str_int (month t)) @ ''/'' @ zfill 2 (str_int (day t)) @ ''/''
         @ zfill 4 (str_int (year t)) @ '' '' @ zfill 2 (str_int (hour t)) @ '' UTC'')"

text \<open>\<^verbatim>\<open>pd.date_range(start, end, freq="6H")\<close>: the times \<open>start + k * 6h\<close> that are not
  after \<open>end\<close>.\<close>

definition date_range :: "timestamp \<Rightarrow> timestamp \<Rightarrow> int \<Rightarrow> timestamp list" where
  "date_range start stop freq =
     (if stop < start then []
      else map (\<lambda>k. start + int k * freq) [0..<nat ((stop - start) div freq) + 1])"

definition freq_6H :: int where
  "freq_6H = 6 * 60"

text \<open>The values the user sets at the top of the notebook (cells 22 and 29).\<close>

record config =
  startDateTime :: datetime
  endDateTime :: datetime
  pLevel :: int

definition notebook_config :: config where
  "notebook_config =
     \<lparr> startDateTime = \<lparr> year = 1993, month = 3, day = 9, hour = 0, minute = 0 \<rparr>,
       endDateTime = \<lparr> year = 1993, month = 3, day = 15, hour = 18, minute = 0 \<rparr>,
       pLevel = 850 \<rparr>"

definition startYear :: "config \<Rightarrow> int" where
  "startYear cfg = year (startDateTime cfg)"

definition dateList :: "config \<Rightarrow> timestamp list" where
  "dateList cfg =
     date_range (to_timestamp (startDateTime cfg)) (to_timestamp (endDateTime cfg)) freq_6H"

definition nTimes :: "config \<Rightarrow> nat" where
  "nTimes cfg = length (dateList cfg)"

section \<open>Gridded data (cells 24 and 29)\<close>

text \<open>
  The physical units that occur: the target units the notebook names (\<^verbatim>\<open>'dam'\<close>,
  \<^verbatim>\<open>'kts'\<close>, \<^verbatim>\<open>'degC'\<close>) and the units they are converted from.
\<close>

datatype phys_unit = Meter | Decameter | MeterPerSecond | Knot | Kelvin | DegC

text \<open>
  A variable of an opened file is an array over (time, level, latitude, longitude) with its
  coordinate vectors and its unit; its values are nested lists in that order of dimensions,
  of the shape the coordinates give. Selecting one level leaves a field over
  (time, latitude, longitude), which keeps the level as a scalar coordinate.
\<close>

record dataarray =
  da_time :: "timestamp list"
  da_lev :: "int list"
  da_lat :: "real list"
  da_lon :: "real list"
  da_units :: phys_unit
  da_values :: "real list list list list"

record gridfield =
  f_time :: "timestamp list"
  f_lev :: int
  f_lat :: "real list"
  f_lon :: "real list"
  f_units :: phys_unit
  f_values :: "real list list list"

type_synonym dataset = "string \<Rightarrow> dataarray option"

type_synonym store = "string \<Rightarrow> dataset option"

definition bind_err :: "py_error + 'a \<Rightarrow> ('a \<Rightarrow> py_error + 'b) \<Rightarrow> py_error + 'b" where
  "bind_err x f = (case x of Inl e \<Rightarrow> Inl e | Inr v \<Rightarrow> f v)"

definition open_dataset :: "store \<Rightarrow> string \<Rightarrow> py_error + dataset" where
  "open_dataset st path = (case st path of None \<Rightarrow> Inl FileNotFoundError | Some ds \<Rightarrow> Inr ds)"

definition data_path :: "string \<Rightarrow> int \<Rightarrow> string" where
  "data_path var y = ''/cfsr/data/'' @ str_int y @ ''/'' @ var @ ''.'' @ str_int y @ ''.0p5.anl.nc''"

text \<open>Cell 24: \<open>dsZ\<close>, \<open>dsT\<close>, \<open>dsU\<close>, \<open>dsV\<close>, opened in this order.\<close>

definition open_datasets :: "store \<Rightarrow> config \<Rightarrow> py_error + (dataset \<times> dataset \<times> dataset \<times> dataset)" where
  "open_datasets st cfg =
     bind_err (open_dataset st (data_path ''g'' (startYear cfg))) (\<lambda>dsZ.
     bind_err (open_dataset st (data_path ''t'' (startYear cfg))) (\<lambda>dsT.
     bind_err (open_dataset st (data_path ''u'' (startYear cfg))) (\<lambda>dsU.
     bind_err (open_dataset st (data_path ''v'' (startYear cfg))) (\<lambda>dsV.
       Inr (dsZ, dsT, dsU, dsV)))))"

definition getitem :: "dataset \<Rightarrow> string \<Rightarrow> py_error + dataarray" where
  "getitem ds var = (case ds var of None \<Rightarrow> Inl KeyError | Some da \<Rightarrow> Inr da)"

fun index_of :: "'a \<Rightarrow> 'a list \<Rightarrow> nat option" where
  "index_of x [] = None"
| "index_of x (y # ys) = (if x = y then Some 0 else map_option Suc (index_of x ys))"

text \<open>
  \<^verbatim>\<open>da.sel(time=dateList, lev=pLevel)\<close>: selection by coordinate label. A label that is
  not in the coordinate raises \<^verbatim>\<open>KeyError\<close>. Latitude and longitude are not named, so
  they are kept whole.
\<close>

definition sel :: "timestamp list \<Rightarrow> int \<Rightarrow> dataarray \<Rightarrow> py_error + gridfield" where
  "sel dates lev da =
     (case those (map (\<lambda>t. index_of t (da_time da)) dates) of
        None \<Rightarrow> Inl KeyError
      | Some tis \<Rightarrow>
          (case index_of lev (da_lev da) of
             None \<Rightarrow> Inl KeyError
           | Some li \<Rightarrow>
               Inr \<lparr> f_time = map (\<lambda>ti. da_time da ! ti) tis,
                     f_lev = da_lev da ! li,
                     f_lat = da_lat da,
                     f_lon = da_lon da,
                     f_units = da_units da,
                     f_values = map (\<lambda>ti. (da_values da ! ti) ! li) tis \<rparr>))"

text \<open>Cell 29: \<open>T\<close>, \<open>U\<close>, \<open>V\<close>, \<open>Z\<close>, selected in this order.\<close>

definition select_fields ::
  "config \<Rightarrow> dataset \<times> dataset \<times> dataset \<times> dataset \<Rightarrow> py_error + (gridfield \<times> gridfield \<times> gridfield \<times> gridfield)" where
  "select_fields cfg dss =
     (case dss of (dsZ, dsT, dsU, dsV) \<Rightarrow>
        bind_err (bind_err (getitem dsT ''t'') (sel (dateList cfg) (pLevel cfg))) (\<lambda>T.
        bind_err (bind_err (getitem dsU ''u'') (sel (dateList cfg) (pLevel cfg))) (\<lambda>U.
        bind_err (bind_err (getitem dsV ''v'') (sel (dateList cfg) (pLevel cfg))) (\<lambda>V.
        bind_err (bind_err (getitem dsZ ''g'') (sel (dateList cfg) (pLevel cfg))) (\<lambda>Z.
          Inr (T, U, V, Z))))))"

text \<open>What it is for a field to be the selection of the times \<open>dates\<close> and the level
  \<open>lev\<close> from a variable, with nothing else selected.\<close>

definition is_selection :: "timestamp list \<Rightarrow> int \<Rightarrow> dataarray \<Rightarrow> gridfield \<Rightarrow> bool" where
  "is_selection dates lev da f =
     (f_time f = dates \<and> f_lev f = lev \<and> f_lat f = da_lat da \<and> f_lon f = da_lon da
      \<and> f_units f = da_units da
      \<and> (\<exists>li < length (da_lev da). da_lev da ! li = lev
            \<and> (\<exists>tis. length tis = length dates
                  \<and> (\<forall>k < length dates.
                        tis ! k < length (da_time da) \<and> da_time da ! (tis ! k) = dates ! k)
                  \<and> f_values f = map (\<lambda>ti. (da_values da ! ti) ! li) tis)))"

text \<open>Two fields on the same coordinates: times, level, latitudes and longitudes.\<close>

definition same_coords :: "gridfield \<Rightarrow> gridfield \<Rightarrow> bool" where
  "same_coords f f' =
     (f_time f = f_time f' \<and> f_lev f = f_lev f' \<and> f_lat f = f_lat f' \<and> f_lon f = f_lon f')"

text \<open>The variables read from the four files are on one grid: the same latitudes and the
  same longitudes.\<close>

definition shared_grid :: "dataset \<times> dataset \<times> dataset \<times> dataset \<Rightarrow> bool" where
  "shared_grid dss =
     (case dss of (dsZ, dsT, dsU, dsV) \<Rightarrow>
        (case (dsZ ''g'', dsT ''t'', dsU ''u'', dsV ''v'') of
           (Some daZ, Some daT, Some daU, Some daV) \<Rightarrow>
             da_lat daZ = da_lat daT \<and> da_lon daZ = da_lon daT
             \<and> da_lat daU = da_lat daT \<and> da_lon daU = da_lon daT
             \<and> da_lat daV = da_lat daT \<and> da_lon daV = da_lon daT
         | _ \<Rightarrow> False))"

section \<open>Unit conversion (cell 35)\<close>

text \<open>
  \<^verbatim>\<open>field.metpy.convert_units(target)\<close> converts between units of one dimension and
  raises \<^verbatim>\<open>DimensionalityError\<close> otherwise. A decameter is 10 m, a knot is 1852 m per
  hour, and 0 degrees Celsius is 273.15 K. The values are real numbers here: the rounding
  of the floating-point arithmetic is not modelled.
\<close>

datatype dimension = Length | Speed | Temperature

fun dimension_of :: "phys_unit \<Rightarrow> dimension" where
  "dimension_of Meter = Length"
| "dimension_of Decameter = Length"
| "dimension_of MeterPerSecond = Speed"
| "dimension_of Knot = Speed"
| "dimension_of Kelvin = Temperature"
| "dimension_of DegC = Temperature"

fun to_base :: "phys_unit \<Rightarrow> real \<Rightarrow> real" where
  "to_base Meter x = x"
| "to_base Decameter x = x * 10"
| "to_base MeterPerSecond x = x"
| "to_base Knot x = x * 1852 / 3600"
| "to_base Kelvin x = x"
| "to_base DegC x = x + 273.15"

fun from_base :: "phys_unit \<Rightarrow> real \<Rightarrow> real" where
  "from_base Meter x = x"
| "from_base Decameter x = x / 10"
| "from_base MeterPerSecond x = x"
| "from_base Knot x = x * 3600 / 1852"
| "from_base Kelvin x = x"
| "from_base DegC x = x - 273.15"

fun parse_unit :: "string \<Rightarrow> phys_unit option" where
  "parse_unit s =
     (if s = ''m'' then Some Meter
      else if s = ''dam'' then Some Decameter
      else if s = ''m/s'' then Some MeterPerSecond
      else if s = ''kts'' then Some Knot
      else if s = ''K'' then Some Kelvin
      else if s = ''degC'' then Some DegC
      else None)"

definition convert_units :: "string \<Rightarrow> gridfield \<Rightarrow> py_error + gridfield" where
  "convert_units target f =
     (case parse_unit target of
        None \<Rightarrow> Inl ValueError
      | Some u \<Rightarrow>
          if dimension_of (f_units f) = dimension_of u
          then Inr (f \<lparr> f_units := u,
                        f_values := map (map (map (\<lambda>x. from_base u (to_base (f_units f) x))))
                                      (f_values f) \<rparr>)
          else Inl DimensionalityError)"

text \<open>Cell 35: \<open>Z\<close>, \<open>U\<close>, \<open>V\<close>, \<open>T\<close>, converted in this order; the fields stay in the
  order \<open>(T, U, V, Z)\<close> of the selection.\<close>

definition convert_fields ::
  "gridfield \<times> gridfield \<times> gridfield \<times> gridfield \<Rightarrow> py_error + (gridfield \<times> gridfield \<times> gridfield \<times> gridfield)" where
  "convert_fields flds =
     (case flds of (T, U, V, Z) \<Rightarrow>
        bind_err (convert_units ''dam'' Z) (\<lambda>Z'.
        bind_err (convert_units ''kts'' U) (\<lambda>U'.
        bind_err (convert_units ''kts'' V) (\<lambda>V'.
        bind_err (convert_units ''degC'' T) (\<lambda>T'.
          Inr (T', U', V', Z'))))))"

section \<open>Contour levels (cells 38 and 40)\<close>

text \<open>\<^verbatim>\<open>np.arange(start, stop, step)\<close> on integers: \<open>ceil((stop - start) / step)\<close> values
  from \<open>start\<close> on (none when that is not positive).\<close>

definition np_arange :: "int \<Rightarrow> int \<Rightarrow> int \<Rightarrow> int list" where
  "np_arange start stop step =
     map (\<lambda>k. start + int k * step) [0..<nat (- ((start - stop) div step))]"

definition tLevels :: "int list" where
  "tLevels = np_arange (- 45) 39 3"

text \<open>The global \<open>zLevels\<close> after cell 40: bound (\<open>Some\<close>) when a branch of the chain ran,
  unbound (\<open>None\<close>) otherwise.\<close>

definition zLevels_of :: "int \<Rightarrow> int list option" where
  "zLevels_of p =
     (if p = 1000 then Some (np_arange (- 90) 63 3)
      else if p = 850 then Some (np_arange 60 183 3)
      else if p = 700 then Some (np_arange 201 339 3)
      else if p = 500 then Some (np_arange 468 606 6)
      else if p = 300 then Some (np_arange 765 1008 9)
      else if p = 200 then Some (np_arange 999 1305 9)
      else None)"

section \<open>The cyclic point (cells 54 and 67)\<close>

text \<open>
  \<^verbatim>\<open>field.isel(time=i)\<close> is the 2-D array (latitude rows, longitude columns) of time
  index \<open>i\<close>; an index past the end raises \<^verbatim>\<open>IndexError\<close>.
\<close>

definition isel :: "gridfield \<Rightarrow> nat \<Rightarrow> py_error + real list list" where
  "isel f i = (if i < length (f_values f) then Inr (f_values f ! i) else Inl IndexError)"

definition np_diff :: "real list \<Rightarrow> real list" where
  "np_diff xs = map (\<lambda>i. xs ! Suc i - xs ! i) [0..<length xs - 1]"

text \<open>\<^verbatim>\<open>np.allclose(ds, d0)\<close> with numpy's default tolerances.\<close>

definition allclose :: "real list \<Rightarrow> real \<Rightarrow> bool" where
  "allclose ds d0 = list_all (\<lambda>d. \<bar>d - d0\<bar> \<le> 1 / 10 ^ 8 + 1 / 10 ^ 5 * \<bar>d0\<bar>) ds"

text \<open>
  \<^verbatim>\<open>cutil.add_cyclic_point(data, coord)\<close> of Cartopy, on a 2-D array and its longitude
  vector: the coordinate has to be as long as the rows and equally spaced; the first column
  is appended to the data, and the last coordinate plus the spacing to the coordinate.
\<close>

definition add_cyclic_point ::
  "real list list \<Rightarrow> real list \<Rightarrow> py_error + (real list list \<times> real list)" where
  "add_cyclic_point data coord =
     (if \<not> list_all (\<lambda>row. length row = length coord) data then Inl ValueError
      else (case np_diff coord of
              [] \<Rightarrow> Inl IndexError
            | d0 # ds \<Rightarrow>
                if \<not> allclose (d0 # ds) d0 then Inl ValueError
                else Inr (map (\<lambda>row. row @ take 1 row) data, coord @ [last coord + d0])))"

section \<open>Figures and shell commands\<close>

text \<open>\<^verbatim>\<open>xs[::k]\<close>: every \<open>k\<close>-th element, from the first on.\<close>

definition stride :: "nat \<Rightarrow> 'a list \<Rightarrow> 'a list" where
  "stride k xs = map (\<lambda>i. xs ! (i * k)) [0..<(length xs + k - 1) div k]"

definition savefig :: "string \<Rightarrow> figure \<Rightarrow> filesystem \<Rightarrow> filesystem" where
  "savefig name fig fs = fs(name \<mapsto> Picture fig)"

text \<open>
  \<^verbatim>\<open>pngquant -f name\<close> reads a PNG and writes its quantized form to the name with
  \<^verbatim>\<open>-fs8.png\<close> in place of the extension, over any file of that name; it leaves the input
  in place. On a missing file or one that is no image it writes nothing.
\<close>

definition pngquant_out :: "string \<Rightarrow> string" where
  "pngquant_out name =
     (if suffix ''.png'' name then take (length name - 4) name else name) @ ''-fs8.png''"

definition pngquant_f :: "string \<Rightarrow> filesystem \<Rightarrow> filesystem" where
  "pngquant_f name fs =
     (case fs name of
        Some (Picture fig) \<Rightarrow> fs(pngquant_out name \<mapsto> Quantized (Picture fig))
      | _ \<Rightarrow> fs)"

definition rm_f :: "string \<Rightarrow> filesystem \<Rightarrow> filesystem" where
  "rm_f name fs = fs(name := None)"

text \<open>
  The shell pattern \<^verbatim>\<open>dir*.png\<close> (the directory name ends in a slash) matches the files of
  the directory whose names end in \<^verbatim>\<open>.png\<close> and do not start with a dot; the star does not
  match a slash. \<^verbatim>\<open>rm -f\<close> removes every match, and nothing when there is none.
\<close>

definition glob_png :: "string \<Rightarrow> string \<Rightarrow> bool" where
  "glob_png dir p =
     (prefix dir p \<and>
      (let base = drop (length dir) p
       in suffix ''.png'' base \<and> CHR ''/'' \<notin> set base \<and> take 1 base \<noteq> ''.''))"

definition rm_f_glob_png :: "string \<Rightarrow> filesystem \<Rightarrow> filesystem" where
  "rm_f_glob_png dir fs = (\<lambda>p. if glob_png dir p then None else fs p)"

section \<open>The notebook's global variables\<close>

text \<open>
  The names that the plotting cells read from the kernel's namespace: the variable \<open>X\<close> of
  the notebook is the field \<open>nb_X\<close>. \<open>zLevels\<close> may be unbound.
\<close>

record namespace =
  nb_Z :: gridfield
  nb_T :: gridfield
  nb_U :: gridfield
  nb_V :: gridfield
  nb_lons :: "real list"
  nb_lats :: "real list"
  nb_times :: "timestamp list"
  nb_zLevels :: "int list option"
  nb_pLevel :: int
  nb_nTimes :: nat

section \<open>The frame renderer (cell 67)\<close>

definition frameNum :: "nat \<Rightarrow> string" where
  "frameNum timeIdx = zfill 2 (str_nat timeIdx)"

definition figName :: "nat \<Rightarrow> string" where
  "figName timeIdx =
     graphicsDir @ ''CFSR_'' @ caseDir @ ''_'' @ prodDir @ ''_'' @ frameNum timeIdx @ ''.png''"

text \<open>The four calls of \<open>add_cyclic_point\<close>, each on the time slice of its field and on
  \<open>lons\<close>; \<open>clons\<close> is the one the last call returned.\<close>

definition cyclic_fields ::
  "namespace \<Rightarrow> nat \<Rightarrow>
     py_error + (real list list \<times> real list list \<times> real list list \<times> real list list \<times> real list)" where
  "cyclic_fields g timeIdx =
     bind_err (bind_err (isel (nb_Z g) timeIdx) (\<lambda>d. add_cyclic_point d (nb_lons g))) (\<lambda>(Zcyc, clonsZ).
     bind_err (bind_err (isel (nb_T g) timeIdx) (\<lambda>d. add_cyclic_point d (nb_lons g))) (\<lambda>(Tcyc, clonsT).
     bind_err (bind_err (isel (nb_U g) timeIdx) (\<lambda>d. add_cyclic_point d (nb_lons g))) (\<lambda>(Ucyc, clonsU).
     bind_err (bind_err (isel (nb_V g) timeIdx) (\<lambda>d. add_cyclic_point d (nb_lons g))) (\<lambda>(Vcyc, clons).
       Inr (Zcyc, Tcyc, Ucyc, Vcyc, clons)))))"

definition skip :: nat where
  "skip = 8"

text \<open>The layers of the map, in the order they are drawn. The contour lines need
  \<open>zLevels\<close>.\<close>

definition sos_layers ::
  "namespace \<Rightarrow> real list list \<times> real list list \<times> real list list \<times> real list list \<times> real list \<Rightarrow>
     int list \<Rightarrow> figure" where
  "sos_layers g cyc zl =
     (case cyc of (Zcyc, Tcyc, Ucyc, Vcyc, clons) \<Rightarrow>
        [ Feature ''COASTLINE'', Feature ''BORDERS'', Feature ''STATES'',
          Contourf clons (nb_lats g) Tcyc tLevels,
          Contour clons (nb_lats g) Zcyc zl,
          Barbs (stride skip clons) (stride skip (nb_lats g))
            (map (stride skip) (stride skip Ucyc)) (map (stride skip) (stride skip Vcyc)) ])"

definition make_sos_map :: "namespace \<Rightarrow> nat \<Rightarrow> filesystem \<Rightarrow> py_error + filesystem" where
  "make_sos_map g timeIdx fs =
     bind_err (cyclic_fields g timeIdx) (\<lambda>cyc.
       case nb_zLevels g of
         None \<Rightarrow> Inl NameError
       | Some zl \<Rightarrow>
           Inr (rm_f (figName timeIdx)
                  (pngquant_f (figName timeIdx)
                     (savefig (figName timeIdx) (sos_layers g cyc zl) fs))))"

section \<open>Labels and frames (cells 65 and 70)\<close>

definition labelFname :: string where
  "labelFname = labelsDir @ ''labels.txt''"

definition label_title :: "namespace \<Rightarrow> nat \<Rightarrow> string" where
  "label_title g timeIdx =
     ''CFSR '' @ str_int (nb_pLevel g) @ '' hPa Z/T/Wind '' @ strftime_label (nb_times g ! timeIdx)
     @ '' \<newline>''"

text \<open>The title line without the newline that ends it.\<close>

definition label_line :: "namespace \<Rightarrow> nat \<Rightarrow> string" where
  "label_line g i =
     ''CFSR '' @ str_int (nb_pLevel g) @ '' hPa Z/T/Wind '' @ strftime_label (nb_times g ! i) @ '' ''"

text \<open>The body of the loop for each index in turn: the map first, then the title line. A
  failure ends the loop.\<close>

fun frame_loop :: "namespace \<Rightarrow> nat list \<Rightarrow> filesystem \<Rightarrow> py_error + filesystem" where
  "frame_loop g [] fs = Inr fs"
| "frame_loop g (timeIdx # rest) fs =
     bind_err (make_sos_map g timeIdx fs) (\<lambda>fs1.
       if timeIdx < length (nb_times g)
       then frame_loop g rest (write_str labelFname (label_title g timeIdx) fs1)
       else Inl IndexError)"

definition nFrames :: "namespace \<Rightarrow> nat" where
  "nFrames g = nb_nTimes g"

definition labels_cell :: "namespace \<Rightarrow> filesystem \<Rightarrow> py_error + filesystem" where
  "labels_cell g fs = frame_loop g [0..<nFrames g] (open_w labelFname fs)"

section \<open>The cells before the frames, and the whole notebook\<close>

text \<open>Cell 19, \<^verbatim>\<open>rm -f {graphicsDir}*.png\<close>.\<close>

definition remove_pngs :: "filesystem \<Rightarrow> filesystem" where
  "remove_pngs fs = rm_f_glob_png graphicsDir fs"

text \<open>Cells 49 to 54: the test plot of the first time, saved in the current directory. It
  leaves \<open>Tcyc\<close> and \<open>clons\<close> to the cells after it.\<close>

definition test_plot ::
  "namespace \<Rightarrow> filesystem \<Rightarrow> py_error + ((real list list \<times> real list) \<times> filesystem)" where
  "test_plot g fs =
     bind_err (isel (nb_Z g) 0) (\<lambda>Z0.
     bind_err (isel (nb_T g) 0) (\<lambda>T0.
     bind_err (isel (nb_U g) 0) (\<lambda>U0.
     bind_err (isel (nb_V g) 0) (\<lambda>V0.
     bind_err (add_cyclic_point Z0 (nb_lons g)) (\<lambda>(Zcyc, clonsZ).
     bind_err (add_cyclic_point T0 (nb_lons g)) (\<lambda>(Tcyc, clonsT).
     bind_err (add_cyclic_point U0 (nb_lons g)) (\<lambda>(Ucyc, clonsU).
     bind_err (add_cyclic_point V0 (nb_lons g)) (\<lambda>(Vcyc, clons).
       case nb_zLevels g of
         None \<Rightarrow> Inl NameError
       | Some zl \<Rightarrow>
           Inr ((Tcyc, clons),
                savefig ''test_CFSR_SOS.png''
                  (sos_layers g (Zcyc, Tcyc, Ucyc, Vcyc, clons) zl) fs)))))))))"

text \<open>Cell 61: the two thumbnails.\<close>

definition thumbnail :: "namespace \<Rightarrow> real list list \<Rightarrow> real list \<Rightarrow> nat \<Rightarrow> filesystem \<Rightarrow> filesystem" where
  "thumbnail g Tcyc clons sz fs =
     savefig (mediaDir @ ''thumbnail_'' @ (if sz = 128 then ''small'' else ''big'') @ ''.jpg'')
       [ Feature ''COASTLINE'', Title (caseDir @ ''\<newline>'' @ prodDir),
         Contourf clons (nb_lats g) Tcyc tLevels ] fs"

definition thumbnails :: "namespace \<Rightarrow> real list list \<Rightarrow> real list \<Rightarrow> filesystem \<Rightarrow> filesystem" where
  "thumbnails g Tcyc clons fs = fold (thumbnail g Tcyc clons) [128, 800] fs"

text \<open>Cell 63: the colorbar of the temperature fill on its own.\<close>

definition colorbar :: "filesystem \<Rightarrow> filesystem" where
  "colorbar fs = savefig (labelsDir @ ''colorbar.png'') [Colorbar tLevels] fs"

definition before_frames :: "config \<Rightarrow> store \<Rightarrow> filesystem \<Rightarrow> py_error + (namespace \<times> filesystem)" where
  "before_frames cfg st fs =
     bind_err (open_datasets st cfg) (\<lambda>dss.
     bind_err (select_fields cfg dss) (\<lambda>selected.
     bind_err (convert_fields selected) (\<lambda>(T, U, V, Z).
       let g = \<lparr> nb_Z = Z, nb_T = T, nb_U = U, nb_V = V,
                 nb_lons = f_lon T, nb_lats = f_lat T, nb_times = f_time T,
                 nb_zLevels = zLevels_of (pLevel cfg), nb_pLevel = pLevel cfg,
                 nb_nTimes = nTimes cfg \<rparr>
       in bind_err (test_plot g (remove_pngs fs)) (\<lambda>((Tcyc, clons), fs1).
            Inr (g, colorbar (thumbnails g Tcyc clons fs1))))))"

definition notebook :: "config \<Rightarrow> store \<Rightarrow> filesystem \<Rightarrow> py_error + filesystem" where
  "notebook cfg st fs =
     bind_err (before_frames cfg st fs) (\<lambda>(g, fs1).
     bind_err (labels_cell g fs1) (\<lambda>fs2.
       Inr (write_playlist fs2)))"

section \<open>A small input\<close>

text \<open>
  Two times six hours apart, two levels, a grid of two latitudes and two longitudes, in the
  four files of 1993; and a disk that holds a frame and a labels file of an earlier run.
\<close>

definition small_config :: config where
  "small_config =
     notebook_config
       \<lparr> endDateTime := \<lparr> year = 1993, month = 3, day = 9, hour = 6, minute = 0 \<rparr> \<rparr>"

definition small_array :: "phys_unit \<Rightarrow> real list \<Rightarrow> real \<Rightarrow> dataarray" where
  "small_array u lon x =
     \<lparr> da_time = [12193920, 12194280], da_lev = [1000, 850], da_lat = [- 45, 45],
       da_lon = lon, da_units = u,
       da_values = [ [ [[0, 0], [0, 0]], [[x, x + 1], [x + 2, x + 3]] ],
                     [ [[0, 0], [0, 0]], [[x + 4, x + 5], [x + 6, x + 7]] ] ] \<rparr>"

definition small_datasets :: "dataset \<times> dataset \<times> dataset \<times> dataset" where
  "small_datasets =
     ( [''g'' \<mapsto> small_array Meter [- 180, 0] 1500],
       [''t'' \<mapsto> small_array Kelvin [- 180, 0] 273],
       [''u'' \<mapsto> small_array MeterPerSecond [- 180, 0] 463],
       [''v'' \<mapsto> small_array MeterPerSecond [- 180, 0] 0] )"

definition small_store :: store where
  "small_store =
     (case small_datasets of (dsZ, dsT, dsU, dsV) \<Rightarrow>
        [ ''/cfsr/data/1993/g.1993.0p5.anl.nc'' \<mapsto> dsZ,
          ''/cfsr/data/1993/t.1993.0p5.anl.nc'' \<mapsto> dsT,
          ''/cfsr/data/1993/u.1993.0p5.anl.nc'' \<mapsto> dsU,
          ''/cfsr/data/1993/v.1993.0p5.anl.nc'' \<mapsto> dsV ])"

text \<open>The same input with the height file on longitudes from 0 on, the other three
  from -180 on.\<close>

definition shifted_datasets :: "dataset \<times> dataset \<times> dataset \<times> dataset" where
  "shifted_datasets =
     ( [''g'' \<mapsto> small_array Meter [0, 180] 1500],
       [''t'' \<mapsto> small_array Kelvin [- 180, 0] 273],
       [''u'' \<mapsto> small_array MeterPerSecond [- 180, 0] 463],
       [''v'' \<mapsto> small_array MeterPerSecond [- 180, 0] 0] )"

definition shifted_store :: store where
  "shifted_store =
     (case shifted_datasets of (dsZ, dsT, dsU, dsV) \<Rightarrow>
        [ ''/cfsr/data/1993/g.1993.0p5.anl.nc'' \<mapsto> dsZ,
          ''/cfsr/data/1993/t.1993.0p5.anl.nc'' \<mapsto> dsT,
          ''/cfsr/data/1993/u.1993.0p5.anl.nc'' \<mapsto> dsU,
          ''/cfsr/data/1993/v.1993.0p5.anl.nc'' \<mapsto> dsV ])"

definition small_field :: "phys_unit \<Rightarrow> real \<Rightarrow> gridfield" where
  "small_field u x =
     \<lparr> f_time = [12193920, 12194280], f_lev = 850, f_lat = [- 45, 45], f_lon = [- 180, 0],
       f_units = u,
       f_values = [ [[x, x + 1], [x + 2, x + 3]], [[x + 4, x + 5], [x + 6, x + 7]] ] \<rparr>"

definition small_namespace :: namespace where
  "small_namespace =
     \<lparr> nb_Z = small_field Decameter 150, nb_T = small_field DegC 0,
       nb_U = small_field Knot 10, nb_V = small_field Knot 0,
       nb_lons = [- 180, 0], nb_lats = [- 45, 45], nb_times = [12193920, 12194280],
       nb_zLevels = Some [60, 63], nb_pLevel = 850, nb_nTimes = 2 \<rparr>"

definition old_files :: filesystem where
  "old_files =
     [ ''SS1993/850T_Z_Wind/2048/CFSR_SS1993_850T_Z_Wind_40-fs8.png'' \<mapsto> Blob 1,
       ''SS1993/850T_Z_Wind/labels/labels.txt'' \<mapsto> Text ''old'' ]"

section \<open>Properties\<close>

subsection \<open>Strings\<close>

lemma of_char_digit_char:
  "d < 10 \<Longrightarrow> of_char (digit_char d) = (48 + d :: nat)"
proof -
  assume "d < 10"
  then have "d \<in> {0, 1, 2, 3, 4, 5, 6, 7, 8, 9}" by auto
  then show ?thesis by (auto simp: digit_char_def)
qed

lemma is_digit_digit_char: "d < 10 \<Longrightarrow> is_digit (digit_char d)"
  by (simp add: is_digit_def of_char_digit_char)

lemma str_nat_digits: "list_all is_digit (str_nat n)"
proof (induction n rule: str_nat.induct)
  case (1 n)
  show ?case
  proof (cases "n < 10")
    case True
    then show ?thesis by (subst str_nat.simps) (simp add: is_digit_digit_char)
  next
    case False
    with "1.IH" show ?thesis by (subst str_nat.simps) (simp add: is_digit_digit_char)
  qed
qed

lemma str_nat_not_in: "\<not> is_digit c \<Longrightarrow> c \<notin> set (str_nat n)"
  using str_nat_digits [of n] by (auto simp: list_all_iff)

lemma zfill_not_in: "c \<noteq> CHR ''0'' \<Longrightarrow> c \<notin> set s \<Longrightarrow> c \<notin> set (zfill w s)"
  by (auto simp: zfill_def split: list.splits)

lemma str_int_not_in: "\<not> is_digit c \<Longrightarrow> c \<noteq> CHR ''-'' \<Longrightarrow> c \<notin> set (str_int i)"
  by (simp add: str_int_def str_nat_not_in)

lemma newline_not_digit: "\<not> is_digit CHR 0x0A"
  by (simp add: is_digit_def)

lemma strftime_label_no_newline: "CHR 0x0A \<notin> set (strftime_label ts)"
proof -
  have a: "CHR 0x0A \<notin> set (zfill w (str_int i))" for w i
    by (rule zfill_not_in) (simp_all add: str_int_not_in newline_not_digit)
  show ?thesis by (simp add: strftime_label_def Let_def a)
qed

lemma split_lines_acc_line:
  "CHR 0x0A \<notin> set l \<Longrightarrow>
     split_lines_acc cur (l @ CHR 0x0A # rest) = (cur @ l) # split_lines_acc [] rest"
  by (induction l arbitrary: cur) auto

lemma split_lines_concat:
  "\<forall>l \<in> set ls. CHR 0x0A \<notin> set l \<Longrightarrow>
     split_lines (concat (map (\<lambda>l. l @ ''\<newline>'') ls)) = ls"
  unfolding split_lines_def
  by (induction ls) (simp_all add: split_lines_acc_line)

subsection \<open>Text files\<close>


lemma write_str_after_open:
  "write_str name s (fs(name \<mapsto> Text old)) = fs(name \<mapsto> Text (old @ s))"
  by (simp add: write_str_def)

lemma fold_write_str:
  "fold (write_str name) ws (fs(name \<mapsto> Text old)) = fs(name \<mapsto> Text (old @ concat ws))"
  by (induction ws arbitrary: old) (simp_all add: write_str_after_open)

lemma write_playlist_eq:
  "write_playlist fs = fs(playlistFname \<mapsto> Text (concat playlist_writes))"
  by (simp add: write_playlist_def open_w_def fold_write_str)

subsection \<open>The playlist\<close>

text \<open>
  C8. The playlist writer leaves a text file of exactly fifteen lines, each \<open>key = value\<close>
  and ended by a newline, with the keys name, description, pip, pipheight, pipvertical,
  label, layer, layerdata, firstdwell, lastdwell, fps, zrotationenable, zfps, subcategory,
  Creator in this order; pip is \<^verbatim>\<open>../labels/colorbar.png\<close>, label is
  \<^verbatim>\<open>../labels/labels.txt\<close> and layerdata is \<^verbatim>\<open>../2048\<close>.
\<close>

theorem playlist_file_lines:
  "\<exists>s. write_playlist fs playlistFname = Some (Text s)
     \<and> split_lines s =
         [ ''name = CFSR T/Z/Wind Superstorm 93'',
           ''description = {{CFSR T/Z/Wind Superstorm 93}}'',
           ''pip = ../labels/colorbar.png'',
           ''pipheight = 10'',
           ''pipvertical = -35'',
           ''label = ../labels/labels.txt'',
           ''layer = Grids'',
           ''layerdata = ../2048'',
           ''firstdwell = 2000'',
           ''lastdwell = 3000'',
           ''fps = 8'',
           ''zrotationenable = 1'',
           ''zfps = 30'',
           ''subcategory = CFSR'',
           ''Creator = Rovin Lazyle'' ]
     \<and> s = concat (map (\<lambda>l. l @ ''\<newline>'') (split_lines s))
     \<and> map line_key (split_lines s) =
         [ ''name'', ''description'', ''pip'', ''pipheight'', ''pipvertical'', ''label'',
           ''layer'', ''layerdata'', ''firstdwell'', ''lastdwell'', ''fps'',
           ''zrotationenable'', ''zfps'', ''subcategory'', ''Creator'' ]
     \<and> map (\<lambda>l. line_key l @ '' = '' @ line_value l) (split_lines s) = split_lines s"
proof -
  let ?s = "concat playlist_writes"
  have lines: "split_lines ?s =
         [ ''name = CFSR T/Z/Wind Superstorm 93'',
           ''description = {{CFSR T/Z/Wind Superstorm 93}}'',
           ''pip = ../labels/colorbar.png'',
           ''pipheight = 10'',
           ''pipvertical = -35'',
           ''label = ../labels/labels.txt'',
           ''layer = Grids'',
           ''layerdata = ../2048'',
           ''firstdwell = 2000'',
           ''lastdwell = 3000'',
           ''fps = 8'',
           ''zrotationenable = 1'',
           ''zfps = 30'',
           ''subcategory = CFSR'',
           ''Creator = Rovin Lazyle'' ]"
    by (simp add: playlist_writes_def split_lines_def nameStr_def descriptionStr_def cRet_def
        subCat_def creaName_def)
  have whole: "?s = concat (map (\<lambda>l. l @ ''\<newline>'') (split_lines ?s))"
    unfolding lines
    by (simp add: playlist_writes_def nameStr_def descriptionStr_def cRet_def
        subCat_def creaName_def)
  have keys: "map line_key (split_lines ?s) =
         [ ''name'', ''description'', ''pip'', ''pipheight'', ''pipvertical'', ''label'',
           ''layer'', ''layerdata'', ''firstdwell'', ''lastdwell'', ''fps'',
           ''zrotationenable'', ''zfps'', ''subcategory'', ''Creator'' ]"
    unfolding lines by simp
  have kv: "map (\<lambda>l. line_key l @ '' = '' @ line_value l) (split_lines ?s) = split_lines ?s"
    unfolding lines by (simp add: line_value_def)
  have written: "write_playlist fs playlistFname = Some (Text ?s)"
    by (simp add: write_playlist_eq)
  show ?thesis
    by (rule exI [of _ ?s]) (intro conjI written lines whole keys kv)
qed

subsection \<open>Files of a frame\<close>

lemma pngquant_out_png: "pngquant_out (x @ ''.png'') = x @ ''-fs8.png''"
  by (simp add: pngquant_out_def suffix_def)

lemma quant_name:
  "pngquant_out (figName i) =
     graphicsDir @ ''CFSR_'' @ caseDir @ ''_'' @ prodDir @ ''_'' @ frameNum i @ ''-fs8.png''"
proof -
  let ?x = "graphicsDir @ ''CFSR_'' @ caseDir @ ''_'' @ prodDir @ ''_'' @ frameNum i"
  have "figName i = ?x @ ''.png''"
    by (simp add: figName_def)
  then have "pngquant_out (figName i) = ?x @ ''-fs8.png''"
    by (simp only: pngquant_out_png)
  then show ?thesis by simp
qed

lemma prefix_figName: "prefix graphicsDir (figName i)"
  by (simp add: figName_def)

lemma prefix_quant_name: "prefix graphicsDir (pngquant_out (figName i))"
  by (simp add: quant_name)

lemma quant_name_neq: "pngquant_out (figName i) \<noteq> figName i"
  unfolding quant_name by (simp add: figName_def)

lemma frame_files:
  "rm_f (figName i) (pngquant_f (figName i) (savefig (figName i) fig fs)) =
     (fs(pngquant_out (figName i) \<mapsto> Quantized (Picture fig)))(figName i := None)"
  using quant_name_neq [of i]
  by (auto simp: rm_f_def pngquant_f_def savefig_def fun_eq_iff)

lemma make_sos_map_Inr:
  assumes "make_sos_map g i fs = Inr fs'"
  obtains cyc zl where "cyclic_fields g i = Inr cyc" and "nb_zLevels g = Some zl"
    and "fs' = (fs(pngquant_out (figName i) \<mapsto> Quantized (Picture (sos_layers g cyc zl))))
                 (figName i := None)"
  using assms
  by (auto simp: make_sos_map_def bind_err_def frame_files split: sum.splits option.splits)

lemma make_sos_map_outside:
  assumes "make_sos_map g i fs = Inr fs'" and "\<not> prefix graphicsDir p"
  shows "fs' p = fs p"
proof -
  from assms(2) have "p \<noteq> figName i" "p \<noteq> pngquant_out (figName i)"
    using prefix_figName [of i] prefix_quant_name [of i] by auto
  with assms(1) show ?thesis by (auto elim!: make_sos_map_Inr)
qed

lemma labelFname_outside: "\<not> prefix graphicsDir labelFname"
  by (simp add: graphicsDir_def labelFname_def labelsDir_def)

subsection \<open>The label file\<close>

lemma frame_loop_labels:
  "frame_loop g idxs fs = Inr fs' \<Longrightarrow> fs labelFname = Some (Text old) \<Longrightarrow>
     fs' labelFname = Some (Text (old @ concat (map (label_title g) idxs)))"
proof (induction idxs arbitrary: fs old)
  case Nil
  then show ?case by simp
next
  case (Cons i idxs)
  from Cons.prems(1) obtain fs1 where
    m: "make_sos_map g i fs = Inr fs1" and
    rest: "frame_loop g idxs (write_str labelFname (label_title g i) fs1) = Inr fs'"
    by (auto simp: bind_err_def split: sum.splits if_splits)
  from m have "fs1 labelFname = fs labelFname"
    by (rule make_sos_map_outside) (rule labelFname_outside)
  with Cons.prems(2) have
    "write_str labelFname (label_title g i) fs1 labelFname = Some (Text (old @ label_title g i))"
    by (simp add: write_str_def)
  from Cons.IH [OF rest this] show ?case by simp
qed

lemma label_title_line: "label_title g i = label_line g i @ ''\<newline>''"
  by (simp add: label_title_def label_line_def)

lemma label_line_no_newline: "CHR 0x0A \<notin> set (label_line g i)"
  by (simp add: label_line_def strftime_label_no_newline str_int_not_in newline_not_digit)

lemma labels_cell_text:
  assumes "labels_cell g fs = Inr fs'"
  shows "fs' labelFname = Some (Text (concat (map (\<lambda>i. label_line g i @ ''\<newline>'') [0..<nFrames g])))"
proof -
  have "open_w labelFname fs labelFname = Some (Text [])" by (simp add: open_w_def)
  from frame_loop_labels [OF assms [unfolded labels_cell_def] this]
  show ?thesis by (simp add: label_title_line [abs_def])
qed

lemma frameNum_digits: "list_all is_digit (frameNum i)"
proof -
  have "c \<in> set (zfill 2 (str_nat i)) \<Longrightarrow> is_digit c" for c
    using zfill_not_in [of c "str_nat i" 2] str_nat_not_in [of c i]
    by (cases "c = CHR ''0''") (auto simp: is_digit_def)
  then show ?thesis by (auto simp: frameNum_def list_all_iff)
qed

lemma frameNum_not_in: "\<not> is_digit c \<Longrightarrow> c \<notin> set (frameNum i)"
  using frameNum_digits [of i] by (auto simp: list_all_iff)

lemma figName_neq_quant_name: "figName j \<noteq> pngquant_out (figName i)"
proof
  assume "figName j = pngquant_out (figName i)"
  then have "frameNum j @ ''.png'' = frameNum i @ ''-fs8.png''"
    by (simp add: quant_name) (simp add: figName_def)
  then have "CHR ''-'' \<in> set (frameNum j @ ''.png'')" by simp
  then have "CHR ''-'' \<in> set (frameNum j)" by simp
  moreover have "\<not> is_digit CHR ''-''" by (simp add: is_digit_def)
  ultimately show False using frameNum_not_in by blast
qed

lemma make_sos_map_keeps_quant:
  assumes "make_sos_map g j fs = Inr fs'" and "fs (pngquant_out (figName i)) \<noteq> None"
  shows "fs' (pngquant_out (figName i)) \<noteq> None"
  using assms figName_neq_quant_name [of j i]
  by (auto elim!: make_sos_map_Inr)

lemma make_sos_map_quant:
  assumes "make_sos_map g i fs = Inr fs'"
  shows "fs' (pngquant_out (figName i)) \<noteq> None"
  using assms quant_name_neq [of i]
  by (auto elim!: make_sos_map_Inr)

lemma write_str_label_keeps:
  "fs (pngquant_out (figName i)) \<noteq> None \<Longrightarrow>
     write_str labelFname s fs (pngquant_out (figName i)) \<noteq> None"
  by (auto simp: write_str_def split: option.splits content.splits)

lemma frame_loop_keeps_quant:
  "frame_loop g idxs fs = Inr fs' \<Longrightarrow> fs (pngquant_out (figName i)) \<noteq> None \<Longrightarrow>
     fs' (pngquant_out (figName i)) \<noteq> None"
proof (induction idxs arbitrary: fs)
  case Nil
  then show ?case by simp
next
  case (Cons j idxs)
  from Cons.prems(1) obtain fs1 where
    m: "make_sos_map g j fs = Inr fs1" and
    rest: "frame_loop g idxs (write_str labelFname (label_title g j) fs1) = Inr fs'"
    by (auto simp: bind_err_def split: sum.splits if_splits)
  from m Cons.prems(2) have "fs1 (pngquant_out (figName i)) \<noteq> None"
    by (rule make_sos_map_keeps_quant)
  then have "write_str labelFname (label_title g j) fs1 (pngquant_out (figName i)) \<noteq> None"
    by (rule write_str_label_keeps)
  with rest show ?case by (rule Cons.IH)
qed

lemma frame_loop_frames:
  "frame_loop g idxs fs = Inr fs' \<Longrightarrow> i \<in> set idxs \<Longrightarrow>
     i < length (nb_times g) \<and> fs' (pngquant_out (figName i)) \<noteq> None"
proof (induction idxs arbitrary: fs)
  case Nil
  then show ?case by simp
next
  case (Cons j idxs)
  from Cons.prems(1) obtain fs1 where
    m: "make_sos_map g j fs = Inr fs1" and
    j: "j < length (nb_times g)" and
    rest: "frame_loop g idxs (write_str labelFname (label_title g j) fs1) = Inr fs'"
    by (auto simp: bind_err_def split: sum.splits if_splits)
  show ?case
  proof (cases "i = j")
    case True
    from m have "fs1 (pngquant_out (figName j)) \<noteq> None" by (rule make_sos_map_quant)
    then have "write_str labelFname (label_title g j) fs1 (pngquant_out (figName j)) \<noteq> None"
      by (rule write_str_label_keeps)
    with rest have "fs' (pngquant_out (figName j)) \<noteq> None" by (rule frame_loop_keeps_quant)
    with True j show ?thesis by simp
  next
    case False
    with Cons.prems(2) have "i \<in> set idxs" by simp
    with rest show ?thesis by (rule Cons.IH)
  qed
qed

lemma small_cyclic_fields:
  "i < 2 \<Longrightarrow> \<exists>cyc. cyclic_fields small_namespace i = Inr cyc"
proof -
  assume "i < 2"
  then have "i = 0 \<or> i = 1" by auto
  then show ?thesis
    by (auto simp: cyclic_fields_def small_namespace_def small_field_def isel_def bind_err_def
        add_cyclic_point_def np_diff_def allclose_def)
qed

lemma small_make_sos_map:
  "i < 2 \<Longrightarrow> \<exists>fs'. make_sos_map small_namespace i fs = Inr fs'"
proof -
  assume "i < 2"
  then obtain cyc where "cyclic_fields small_namespace i = Inr cyc"
    using small_cyclic_fields by blast
  then show ?thesis
    by (simp add: make_sos_map_def bind_err_def) (simp add: small_namespace_def)
qed

lemma small_labels_cell: "\<exists>fs'. labels_cell small_namespace fs = Inr fs'"
proof -
  obtain fs1 where 1: "make_sos_map small_namespace 0 (open_w labelFname fs) = Inr fs1"
    using small_make_sos_map [of 0] by auto
  obtain fs2 where 2: "make_sos_map small_namespace (Suc 0)
      (write_str labelFname (label_title small_namespace 0) fs1) = Inr fs2"
    using small_make_sos_map [of "Suc 0"] by auto
  have n: "nFrames small_namespace = 2" "length (nb_times small_namespace) = 2"
    by (simp_all add: nFrames_def small_namespace_def)
  have "[0..<2] = [0, Suc 0]" by (simp add: upt_rec)
  then show ?thesis
    by (simp add: labels_cell_def n 1 2 bind_err_def)
qed

text \<open>
  C1. When the loop over the frame indices \<open>0, \<dots>, n - 1\<close> has run, the labels file holds
  exactly \<open>n\<close> lines, each ended by a newline; every index \<open>i\<close> below \<open>n\<close> has its frame
  in the graphics directory and its caption as line \<open>i + 1\<close>, with the time of element \<open>i\<close>
  of the time coordinate, so the captions stand in the order of the frames.
\<close>

theorem labels_match_frames:
  assumes "labels_cell g fs = Inr fs'"
  shows "\<exists>s. fs' labelFname = Some (Text s)
           \<and> length (split_lines s) = nFrames g
           \<and> split_lines s = map (label_line g) [0..<nFrames g]
           \<and> (\<forall>i < nFrames g.
                 i < length (nb_times g)
                 \<and> fs' (pngquant_out (figName i)) \<noteq> None
                 \<and> split_lines s ! i =
                     ''CFSR '' @ str_int (nb_pLevel g) @ '' hPa Z/T/Wind ''
                     @ strftime_label (nb_times g ! i) @ '' '')
           \<and> s = concat (map (\<lambda>l. l @ ''\<newline>'') (split_lines s))"
proof -
  let ?ls = "map (label_line g) [0..<nFrames g]"
  let ?s = "concat (map (\<lambda>l. l @ ''\<newline>'') ?ls)"
  have written: "fs' labelFname = Some (Text ?s)"
    using labels_cell_text [OF assms] by (simp add: comp_def)
  have "\<forall>l \<in> set ?ls. CHR 0x0A \<notin> set l"
    by (auto simp: label_line_no_newline)
  then have lines: "split_lines ?s = ?ls" by (rule split_lines_concat)
  have len: "length (split_lines ?s) = nFrames g" unfolding lines by simp
  have frames: "i < length (nb_times g) \<and> fs' (pngquant_out (figName i)) \<noteq> None"
    if "i < nFrames g" for i
    using frame_loop_frames [OF assms [unfolded labels_cell_def], of i] that by simp
  have nth: "\<forall>i < nFrames g.
                 i < length (nb_times g)
                 \<and> fs' (pngquant_out (figName i)) \<noteq> None
                 \<and> split_lines ?s ! i =
                     ''CFSR '' @ str_int (nb_pLevel g) @ '' hPa Z/T/Wind ''
                     @ strftime_label (nb_times g ! i) @ '' ''"
    unfolding lines using frames by (simp add: label_line_def)
  have whole: "?s = concat (map (\<lambda>l. l @ ''\<newline>'') (split_lines ?s))"
    unfolding lines ..
  show ?thesis
    by (rule exI [of _ ?s]) (intro conjI written len lines nth whole)
qed

theorem labels_match_frames_witness:
  "\<exists>fs'. labels_cell small_namespace old_files = Inr fs'
     \<and> (\<exists>s. fs' labelFname = Some (Text s)
          \<and> split_lines s =
              [ ''CFSR 850 hPa Z/T/Wind 03/09/1993 00 UTC '',
                ''CFSR 850 hPa Z/T/Wind 03/09/1993 06 UTC '' ]
          \<and> fs' (pngquant_out (figName 0)) \<noteq> None
          \<and> fs' (pngquant_out (figName 1)) \<noteq> None)"
proof -
  obtain fs' where run: "labels_cell small_namespace old_files = Inr fs'"
    using small_labels_cell by blast
  have n: "nFrames small_namespace = 2"
    by (simp add: nFrames_def small_namespace_def)
  have "[0..<2] = [0, Suc 0]" by (simp add: upt_rec)
  then have ls: "map (label_line small_namespace) [0..<2] =
      [ ''CFSR 850 hPa Z/T/Wind 03/09/1993 00 UTC '',
        ''CFSR 850 hPa Z/T/Wind 03/09/1993 06 UTC '' ]"
    by (simp add: label_line_def small_namespace_def) code_simp
  from labels_match_frames [OF run] obtain s where
    s: "fs' labelFname = Some (Text s)"
      "split_lines s = map (label_line small_namespace) [0..<nFrames small_namespace]"
      "\<forall>i < nFrames small_namespace. fs' (pngquant_out (figName i)) \<noteq> None"
    by blast
  from s(3) have "fs' (pngquant_out (figName 0)) \<noteq> None" "fs' (pngquant_out (figName 1)) \<noteq> None"
    by (simp_all add: n)
  with run s(1) s(2) show ?thesis by (simp add: n ls)
qed

subsection \<open>Frame numbers\<close>

lemma digit_char_not_sign:
  "d < 10 \<Longrightarrow> digit_char d \<noteq> CHR ''+'' \<and> digit_char d \<noteq> CHR ''-''"
  using is_digit_digit_char [of d] by (auto simp: is_digit_def)

lemma digit_char_0: "digit_char 0 = CHR ''0''"
  by (simp add: digit_char_def)

lemma frameNum_two_digits:
  assumes "i < 100"
  shows "frameNum i = [digit_char (i div 10), digit_char (i mod 10)]"
proof (cases "i < 10")
  case True
  then have "str_nat i = [digit_char i]" by (subst str_nat.simps) simp
  with True show ?thesis
    using digit_char_not_sign [of i] by (simp add: frameNum_def zfill_def digit_char_0)
next
  case False
  with assms have "i div 10 < 10" by simp
  then have "str_nat (i div 10) = [digit_char (i div 10)]" by (subst str_nat.simps) simp
  with False have "str_nat i = [digit_char (i div 10), digit_char (i mod 10)]"
    by (subst str_nat.simps) simp
  then show ?thesis by (simp add: frameNum_def zfill_def)
qed

lemma str_nat_nonempty: "str_nat n \<noteq> []"
  by (subst str_nat.simps) simp

lemma frameNum_three_digits:
  assumes "100 \<le> i"
  shows "2 < length (frameNum i)"
proof -
  from assms have a: "\<not> i < 10" "\<not> i div 10 < 10" by auto
  have "str_nat i = str_nat (i div 10 div 10) @ [digit_char (i div 10 mod 10), digit_char (i mod 10)]"
    using a by (subst str_nat.simps, simp, subst str_nat.simps, simp)
  moreover have "0 < length (str_nat (i div 10 div 10))"
    using str_nat_nonempty by simp
  ultimately have "2 < length (str_nat i)" by simp
  then show ?thesis by (simp add: frameNum_def zfill_def)
qed

lemma digit_char_less:
  "a < 10 \<Longrightarrow> b < 10 \<Longrightarrow> (digit_char a < digit_char b) = (a < b)"
  by (simp only: less_char_def of_char_digit_char) simp

lemma digit_char_eq:
  assumes "a < 10" and "b < 10"
  shows "(digit_char a = digit_char b) = (a = b)"
proof
  assume "digit_char a = digit_char b"
  then have "(of_char (digit_char a) :: nat) = of_char (digit_char b)" by (rule arg_cong)
  then show "a = b" by (simp only: of_char_digit_char assms)
qed simp

lemma append_less_cancel: "(xs @ ys < xs @ zs) = (ys < (zs :: string))"
  by (induction xs) simp_all

lemma frameNum_less:
  assumes "i < j" and "j < 100"
  shows "frameNum i @ rest < frameNum j @ rest"
proof -
  from assms have i: "i < 100" by simp
  have d: "i div 10 < 10" "j div 10 < 10" "i mod 10 < 10" "j mod 10 < 10"
    using assms by simp_all
  from assms(1) have "i div 10 < j div 10 \<or> (i div 10 = j div 10 \<and> i mod 10 < j mod 10)"
    by (metis div_le_mono div_mult_mod_eq le_neq_implies_less less_imp_le_nat
        nat_add_left_cancel_less)
  then consider "i div 10 < j div 10" | "i div 10 = j div 10" "i mod 10 < j mod 10"
    by blast
  then have "[digit_char (i div 10), digit_char (i mod 10)] @ rest
      < [digit_char (j div 10), digit_char (j mod 10)] @ rest"
  proof cases
    case 1
    then have "digit_char (i div 10) < digit_char (j div 10)"
      by (simp only: digit_char_less d)
    then show ?thesis by simp
  next
    case 2
    then have "digit_char (i mod 10) < digit_char (j mod 10)"
      by (simp only: digit_char_less d)
    with 2(1) show ?thesis by simp
  qed
  then show ?thesis
    by (simp only: frameNum_two_digits [OF i] frameNum_two_digits [OF assms(2)])
qed

lemma quant_name_less:
  assumes "i < j" and "j < 100"
  shows "pngquant_out (figName i) < pngquant_out (figName j)"
  unfolding quant_name
  using frameNum_less [OF assms, of "''-fs8.png''"]
  by (simp add: append_less_cancel)

lemma quant_name_100_99: "pngquant_out (figName 100) < pngquant_out (figName 99)"
proof -
  have "frameNum 100 = ''100''" "frameNum 99 = ''99''"
    by (simp_all add: frameNum_def zfill_def) code_simp+
  then show ?thesis
    unfolding quant_name by (simp add: append_less_cancel graphicsDir_def caseDir_def prodDir_def)
qed

lemma figName_literal:
  "figName i = ''SS1993/850T_Z_Wind/2048/CFSR_SS1993_850T_Z_Wind_'' @ zfill 2 (str_nat i) @ ''.png''"
  by (simp add: figName_def graphicsDir_def caseDir_def prodDir_def frameNum_def)

lemma quant_name_literal:
  "pngquant_out (figName i) =
     ''SS1993/850T_Z_Wind/2048/CFSR_SS1993_850T_Z_Wind_'' @ zfill 2 (str_nat i) @ ''-fs8.png''"
  by (simp add: quant_name graphicsDir_def caseDir_def prodDir_def frameNum_def)

text \<open>
  C5. For frame index \<open>i\<close> the renderer saves the map of time index \<open>i\<close> as one PNG whose
  name holds the index filled with zeros to two digits, then runs \<^verbatim>\<open>pngquant\<close> on that
  file; the quantized file is the one that stays in the graphics directory.
\<close>

theorem frame_saved_then_quantized:
  assumes "make_sos_map g i fs = Inr fs'"
  shows "\<exists>cyc zl fig.
           cyclic_fields g i = Inr cyc \<and> nb_zLevels g = Some zl \<and> fig = sos_layers g cyc zl
           \<and> (let fs1 = savefig (figName i) fig fs;
                   fs2 = pngquant_f (figName i) fs1
               in fs1 (figName i) = Some (Picture fig)
                  \<and> fs2 (figName i) = Some (Picture fig)
                  \<and> fs2 (pngquant_out (figName i)) = Some (Quantized (Picture fig))
                  \<and> fs' = rm_f (figName i) fs2)
           \<and> fs' (pngquant_out (figName i)) = Some (Quantized (Picture fig))
           \<and> prefix graphicsDir (pngquant_out (figName i))
           \<and> figName i =
               ''SS1993/850T_Z_Wind/2048/CFSR_SS1993_850T_Z_Wind_'' @ zfill 2 (str_nat i) @ ''.png''
           \<and> pngquant_out (figName i) =
               ''SS1993/850T_Z_Wind/2048/CFSR_SS1993_850T_Z_Wind_'' @ zfill 2 (str_nat i)
               @ ''-fs8.png''"
proof -
  from assms obtain cyc zl where
    c: "cyclic_fields g i = Inr cyc" and z: "nb_zLevels g = Some zl" and
    r: "fs' = rm_f (figName i) (pngquant_f (figName i)
              (savefig (figName i) (sos_layers g cyc zl) fs))"
    by (auto simp: make_sos_map_def bind_err_def split: sum.splits option.splits)
  let ?fig = "sos_layers g cyc zl"
  let ?fs1 = "savefig (figName i) ?fig fs"
  let ?fs2 = "pngquant_f (figName i) ?fs1"
  have 1: "?fs1 (figName i) = Some (Picture ?fig)" by (simp add: savefig_def)
  have 2: "?fs2 (figName i) = Some (Picture ?fig)"
    using quant_name_neq [of i] by (simp add: pngquant_f_def savefig_def)
  have 3: "?fs2 (pngquant_out (figName i)) = Some (Quantized (Picture ?fig))"
    by (simp add: pngquant_f_def savefig_def)
  have 4: "fs' (pngquant_out (figName i)) = Some (Quantized (Picture ?fig))"
    unfolding r using quant_name_neq [of i] 3 by (simp add: rm_f_def)
  have steps: "let fs1 = ?fs1; fs2 = pngquant_f (figName i) fs1
               in fs1 (figName i) = Some (Picture ?fig)
                  \<and> fs2 (figName i) = Some (Picture ?fig)
                  \<and> fs2 (pngquant_out (figName i)) = Some (Quantized (Picture ?fig))
                  \<and> fs' = rm_f (figName i) fs2"
    unfolding Let_def using 1 2 3 r by blast
  show ?thesis
    by (intro exI [of _ cyc] exI [of _ zl] exI [of _ ?fig] conjI c z refl steps 4
        prefix_quant_name figName_literal quant_name_literal)
qed

theorem frame_saved_then_quantized_witness:
  "\<exists>fs' fig. make_sos_map small_namespace 1 old_files = Inr fs'
     \<and> fs' ''SS1993/850T_Z_Wind/2048/CFSR_SS1993_850T_Z_Wind_01-fs8.png''
         = Some (Quantized (Picture fig))
     \<and> fs' = rm_f (figName 1) (pngquant_f (figName 1) (savefig (figName 1) fig old_files))"
proof -
  obtain fs' where run: "make_sos_map small_namespace 1 old_files = Inr fs'"
    using small_make_sos_map [of 1 old_files] by auto
  have "zfill 2 (str_nat 1) = ''01''"
    by (simp add: zfill_def) code_simp
  then have name: "pngquant_out (figName 1) =
      ''SS1993/850T_Z_Wind/2048/CFSR_SS1993_850T_Z_Wind_01-fs8.png''"
    by (simp add: quant_name_literal)
  from frame_saved_then_quantized [OF run] obtain fig where
    "fs' (pngquant_out (figName 1)) = Some (Quantized (Picture fig))"
    "fs' = rm_f (figName 1) (pngquant_f (figName 1) (savefig (figName 1) fig old_files))"
    unfolding Let_def by blast
  with run name show ?thesis by auto
qed

text \<open>
  C10. After \<open>make_sos_map\<close> the PNG it saved is gone and the file ending in
  \<^verbatim>\<open>-fs8.png\<close> is there; no other file has changed. The frame number has exactly two
  characters for the indices below 100 and more from 100 on, so the file names are ordered
  as their indices (and so distinct) below 100, and no longer from 100 on: the name of
  frame 100 sorts before that of frame 99.
\<close>

theorem frame_keeps_only_quantized:
  "(make_sos_map g i fs = Inr fs' \<longrightarrow>
      fs' (figName i) = None
      \<and> (\<exists>fig. fs' (pngquant_out (figName i)) = Some (Quantized (Picture fig)))
      \<and> suffix ''-fs8.png'' (pngquant_out (figName i))
      \<and> (\<forall>p. p \<noteq> figName i \<and> p \<noteq> pngquant_out (figName i) \<longrightarrow> fs' p = fs p))
   \<and> (i < 100 \<longrightarrow> length (frameNum i) = 2)
   \<and> (100 \<le> i \<longrightarrow> 2 < length (frameNum i))
   \<and> (i < j \<and> j < 100 \<longrightarrow>
        figName i < figName j \<and> pngquant_out (figName i) < pngquant_out (figName j))
   \<and> pngquant_out (figName 100) < pngquant_out (figName 99)"
proof -
  have files: "fs' (figName i) = None
      \<and> (\<exists>fig. fs' (pngquant_out (figName i)) = Some (Quantized (Picture fig)))
      \<and> suffix ''-fs8.png'' (pngquant_out (figName i))
      \<and> (\<forall>p. p \<noteq> figName i \<and> p \<noteq> pngquant_out (figName i) \<longrightarrow> fs' p = fs p)"
    if "make_sos_map g i fs = Inr fs'"
  proof -
    have "suffix ''-fs8.png'' (pngquant_out (figName i))"
      unfolding quant_name by (simp add: suffix_def)
    with that quant_name_neq [of i] show ?thesis
      by (auto elim!: make_sos_map_Inr)
  qed
  have two: "length (frameNum i) = 2" if "i < 100"
    by (simp add: frameNum_two_digits [OF that])
  have order: "figName i < figName j \<and> pngquant_out (figName i) < pngquant_out (figName j)"
    if "i < j \<and> j < 100"
  proof -
    from that have "frameNum i @ ''.png'' < frameNum j @ ''.png''"
      by (simp add: frameNum_less)
    then have "figName i < figName j"
      by (simp add: figName_def append_less_cancel)
    with that show ?thesis by (simp add: quant_name_less)
  qed
  show ?thesis
    using files two order frameNum_three_digits [of i] quant_name_100_99
    by simp
qed

theorem frame_keeps_only_quantized_witness:
  "\<exists>fs'. make_sos_map small_namespace 0 old_files = Inr fs'
     \<and> fs' (figName 0) = None
     \<and> (\<exists>fig. fs' (pngquant_out (figName 0)) = Some (Quantized (Picture fig)))
     \<and> fs' labelFname = Some (Text ''old'')
     \<and> length (frameNum 0) = 2
     \<and> 2 < length (frameNum 100)
     \<and> pngquant_out (figName 0) < pngquant_out (figName 27)"
proof -
  obtain fs' where run: "make_sos_map small_namespace 0 old_files = Inr fs'"
    using small_make_sos_map [of 0 old_files] by auto
  have a: "labelFname \<noteq> figName 0" "labelFname \<noteq> pngquant_out (figName 0)"
    using labelFname_outside prefix_figName [of 0] prefix_quant_name [of 0] by auto
  have b: "old_files labelFname = Some (Text ''old'')"
    by (simp add: old_files_def labelFname_def labelsDir_def caseDir_def prodDir_def)
  from frame_keeps_only_quantized [of small_namespace 0 old_files fs' 27] run a b
  have "fs' (figName 0) = None
     \<and> (\<exists>fig. fs' (pngquant_out (figName 0)) = Some (Quantized (Picture fig)))
     \<and> fs' labelFname = Some (Text ''old'')
     \<and> length (frameNum 0) = 2
     \<and> pngquant_out (figName 0) < pngquant_out (figName 27)"
    by simp
  moreover have "2 < length (frameNum 100)"
    using frame_keeps_only_quantized [of small_namespace 100 old_files fs' 0] by simp
  ultimately show ?thesis using run by blast
qed

subsection \<open>Removing the frames of an earlier run\<close>

lemma remove_pngs_match: "glob_png graphicsDir p \<Longrightarrow> remove_pngs fs p = None"
  by (simp add: remove_pngs_def rm_f_glob_png_def)

lemma remove_pngs_other: "\<not> glob_png graphicsDir p \<Longrightarrow> remove_pngs fs p = fs p"
  by (simp add: remove_pngs_def rm_f_glob_png_def)

lemma remove_pngs_outside: "\<not> prefix graphicsDir p \<Longrightarrow> remove_pngs fs p = fs p"
  by (simp add: remove_pngs_other glob_png_def)

lemma slash_not_digit: "\<not> is_digit CHR ''/''"
  by (simp add: is_digit_def)

lemma glob_quant_name: "glob_png graphicsDir (pngquant_out (figName i))"
  unfolding quant_name glob_png_def
  by (simp add: Let_def suffix_def caseDir_def prodDir_def frameNum_not_in slash_not_digit)

lemma glob_figName: "glob_png graphicsDir (figName i)"
  unfolding figName_def glob_png_def
  by (simp add: Let_def suffix_def caseDir_def prodDir_def frameNum_not_in slash_not_digit)

lemma outside_labelsDir: "\<not> prefix graphicsDir (labelsDir @ name)"
  by (simp add: graphicsDir_def labelsDir_def)

lemma outside_mediaDir: "\<not> prefix graphicsDir (mediaDir @ name)"
  by (simp add: graphicsDir_def mediaDir_def)

lemma outside_playlistDir: "\<not> prefix graphicsDir (playlistDir @ name)"
  by (simp add: graphicsDir_def playlistDir_def)

lemma outside_test_plot: "\<not> prefix graphicsDir ''test_CFSR_SOS.png''"
  by (simp add: graphicsDir_def caseDir_def)

lemma test_plot_inside:
  assumes "test_plot g fs = Inr (r, fs')" and "prefix graphicsDir p"
  shows "fs' p = fs p"
proof -
  from assms(2) outside_test_plot have "p \<noteq> ''test_CFSR_SOS.png''" by auto
  with assms(1) show ?thesis
    by (auto simp: test_plot_def bind_err_def savefig_def split: sum.splits option.splits)
qed

lemma thumbnails_inside:
  assumes "prefix graphicsDir p"
  shows "thumbnails g Tcyc clons fs p = fs p"
proof -
  have "p \<noteq> mediaDir @ name" for name
    using assms outside_mediaDir [of name] by auto
  then show ?thesis by (simp add: thumbnails_def thumbnail_def savefig_def)
qed

lemma colorbar_inside:
  assumes "prefix graphicsDir p"
  shows "colorbar fs p = fs p"
proof -
  have "p \<noteq> labelsDir @ name" for name
    using assms outside_labelsDir [of name] by auto
  then show ?thesis by (simp add: colorbar_def savefig_def)
qed

lemma before_frames_inside:
  assumes "before_frames cfg st fs = Inr (g, fs1)" and "prefix graphicsDir p"
  shows "fs1 p = remove_pngs fs p"
proof -
  from assms(1) obtain g' r fs2 where
    t: "test_plot g' (remove_pngs fs) = Inr (r, fs2)" and
    f: "fs1 = colorbar (thumbnails g' (fst r) (snd r) fs2)"
    by (auto simp: before_frames_def bind_err_def Let_def split: sum.splits prod.splits)
  from t assms(2) have "fs2 p = remove_pngs fs p" by (rule test_plot_inside)
  with assms(2) show ?thesis by (simp add: f colorbar_inside thumbnails_inside)
qed

lemma glob_png_prefix: "glob_png dir p \<Longrightarrow> prefix dir p"
  by (simp add: glob_png_def)


subsection \<open>The small input, cell by cell\<close>

lemma small_dateList: "dateList small_config = [12193920, 12194280]"
  by (simp add: dateList_def small_config_def notebook_config_def date_range_def to_timestamp_def
      ymd2ord_def days_before_year_def days_before_month_def days_in_month_def is_leap_def
      epoch_ord_def freq_6H_def upt_rec)

lemma small_data_path:
  "data_path v (startYear small_config) = ''/cfsr/data/1993/'' @ v @ ''.1993.0p5.anl.nc''"
proof -
  have "str_int 1993 = ''1993''" by code_simp
  then show ?thesis
    by (simp add: data_path_def startYear_def small_config_def notebook_config_def)
qed

lemma small_pLevel: "pLevel small_config = 850"
  by (simp add: small_config_def notebook_config_def)

lemma small_open_datasets: "open_datasets small_store small_config = Inr small_datasets"
  by (simp add: open_datasets_def small_data_path open_dataset_def small_store_def bind_err_def
      small_datasets_def)

lemma small_select_fields:
  "select_fields small_config small_datasets =
     Inr (small_field Kelvin 273, small_field MeterPerSecond 463,
          small_field MeterPerSecond 0, small_field Meter 1500)"
  by (simp add: select_fields_def small_datasets_def getitem_def bind_err_def sel_def
      small_dateList small_pLevel small_array_def small_field_def)

lemma small_convert_fields:
  "convert_fields (small_field Kelvin 273, small_field MeterPerSecond 463,
          small_field MeterPerSecond 0, small_field Meter 1500) =
     Inr (small_field Kelvin 273
            \<lparr> f_units := DegC,
              f_values := map (map (map (\<lambda>x. x - 273.15))) (f_values (small_field Kelvin 273)) \<rparr>,
          small_field MeterPerSecond 463
            \<lparr> f_units := Knot,
              f_values := map (map (map (\<lambda>x. x * 3600 / 1852)))
                            (f_values (small_field MeterPerSecond 463)) \<rparr>,
          small_field MeterPerSecond 0
            \<lparr> f_units := Knot,
              f_values := map (map (map (\<lambda>x. x * 3600 / 1852)))
                            (f_values (small_field MeterPerSecond 0)) \<rparr>,
          small_field Meter 1500
            \<lparr> f_units := Decameter,
              f_values := map (map (map (\<lambda>x. x / 10))) (f_values (small_field Meter 1500)) \<rparr>)"
  by (simp add: convert_fields_def convert_units_def bind_err_def small_field_def)

lemma small_before_frames:
  "\<exists>g fs1. before_frames small_config small_store fs = Inr (g, fs1)"
  apply (simp add: before_frames_def small_open_datasets small_select_fields
      small_convert_fields bind_err_def small_pLevel)
  apply (simp add: Let_def test_plot_def isel_def small_field_def add_cyclic_point_def
      np_diff_def allclose_def zLevels_of_def bind_err_def)
  done


text \<open>
  C4. The removal of cell 19 deletes every file that the pattern \<^verbatim>\<open>{graphicsDir}*.png\<close>
  matches, among them every frame an earlier run left (quantized or not), and changes no
  file outside the graphics directory, so none in the labels, media and playlist
  directories. The cells between it and the frame loop write no file that the pattern
  matches: when the first frame is rendered, no such file is there.
\<close>

theorem prior_pngs_removed:
  "(glob_png graphicsDir p \<longrightarrow> remove_pngs fs p = None)
   \<and> glob_png graphicsDir (pngquant_out (figName i))
   \<and> glob_png graphicsDir (figName i)
   \<and> remove_pngs fs (pngquant_out (figName i)) = None
   \<and> remove_pngs fs (figName i) = None
   \<and> (\<not> prefix graphicsDir p \<longrightarrow> remove_pngs fs p = fs p)
   \<and> remove_pngs fs (labelsDir @ name) = fs (labelsDir @ name)
   \<and> remove_pngs fs (mediaDir @ name) = fs (mediaDir @ name)
   \<and> remove_pngs fs (playlistDir @ name) = fs (playlistDir @ name)
   \<and> (before_frames cfg st fs = Inr (g, fs1) \<longrightarrow>
        (\<forall>q. glob_png graphicsDir q \<longrightarrow> fs1 q = None))"
proof -
  have "fs1 q = None" if "before_frames cfg st fs = Inr (g, fs1)" and "glob_png graphicsDir q"
    for q
  proof -
    from that(2) have "prefix graphicsDir q" by (rule glob_png_prefix)
    with that(1) have "fs1 q = remove_pngs fs q" by (rule before_frames_inside)
    with that(2) show ?thesis by (simp add: remove_pngs_match)
  qed
  then show ?thesis
    by (simp add: remove_pngs_match remove_pngs_outside glob_quant_name glob_figName
        outside_labelsDir outside_mediaDir outside_playlistDir)
qed

theorem prior_pngs_removed_witness:
  "old_files ''SS1993/850T_Z_Wind/2048/CFSR_SS1993_850T_Z_Wind_40-fs8.png'' = Some (Blob 1)
   \<and> remove_pngs old_files ''SS1993/850T_Z_Wind/2048/CFSR_SS1993_850T_Z_Wind_40-fs8.png'' = None
   \<and> remove_pngs old_files ''SS1993/850T_Z_Wind/labels/labels.txt'' = Some (Text ''old'')
   \<and> (\<exists>g fs1. before_frames small_config small_store old_files = Inr (g, fs1)
         \<and> fs1 ''SS1993/850T_Z_Wind/2048/CFSR_SS1993_850T_Z_Wind_40-fs8.png'' = None)"
proof -
  let ?p = "''SS1993/850T_Z_Wind/2048/CFSR_SS1993_850T_Z_Wind_40-fs8.png''"
  let ?l = "''SS1993/850T_Z_Wind/labels/labels.txt''"
  have m: "glob_png graphicsDir ?p"
    by (simp add: glob_png_def graphicsDir_def caseDir_def prodDir_def suffix_def)
  have o: "\<not> prefix graphicsDir ?l"
    by (simp add: graphicsDir_def caseDir_def prodDir_def)
  obtain g fs1 where run: "before_frames small_config small_store old_files = Inr (g, fs1)"
    using small_before_frames by blast
  have 1: "remove_pngs old_files ?p = None"
    using prior_pngs_removed [of ?p old_files] m by blast
  have 2: "remove_pngs old_files ?l = old_files ?l"
    using prior_pngs_removed [of ?l old_files] o by blast
  have 3: "fs1 ?p = None"
    using prior_pngs_removed [of _ old_files _ _ small_config small_store g fs1] run m by blast
  have 4: "old_files ?p = Some (Blob 1)" "old_files ?l = Some (Text ''old'')"
    by (simp_all add: old_files_def)
  from 1 2 3 4 run show ?thesis by auto
qed

subsection \<open>Contour levels\<close>

lemma zLevels_of_None:
  "(zLevels_of p = None) = (p \<notin> {1000, 850, 700, 500, 300, 200})"
  by (simp add: zLevels_of_def)

lemma zLevels_of_850:
  "zLevels_of 850 =
     Some [60, 63, 66, 69, 72, 75, 78, 81, 84, 87, 90, 93, 96, 99, 102, 105, 108, 111, 114, 117, 120, 123, 126, 129, 132, 135, 138, 141, 144, 147, 150, 153, 156, 159, 162, 165, 168, 171, 174, 177, 180]"
  by (simp add: zLevels_of_def np_arange_def upt_rec)

lemma make_sos_map_unbound:
  assumes "nb_zLevels g = None"
  shows "\<exists>e. make_sos_map g i fs = Inl e"
    and "cyclic_fields g i = Inr cyc \<Longrightarrow> make_sos_map g i fs = Inl NameError"
  using assms by (auto simp: make_sos_map_def bind_err_def split: sum.splits)

lemma labels_cell_unbound:
  assumes "nb_zLevels g = None" and "0 < nFrames g"
  shows "\<exists>e. labels_cell g fs = Inl e"
proof -
  from assms(2) have "[0..<nFrames g] = 0 # [1..<nFrames g]" by (simp add: upt_rec)
  moreover obtain e where "make_sos_map g 0 (open_w labelFname fs) = Inl e"
    using make_sos_map_unbound(1) [OF assms(1)] by blast
  ultimately show ?thesis by (simp add: labels_cell_def bind_err_def)
qed

lemma test_plot_unbound:
  assumes "nb_zLevels g = None"
  shows "\<exists>e. test_plot g fs = Inl e"
  using assms by (auto simp: test_plot_def bind_err_def split: sum.splits prod.splits)

lemma notebook_unbound:
  assumes "zLevels_of (pLevel cfg) = None"
  shows "\<exists>e. notebook cfg st fs = Inl e"
proof -
  have "\<exists>e. before_frames cfg st fs = Inl e"
    using assms test_plot_unbound
    apply (simp add: before_frames_def bind_err_def Let_def split: sum.splits prod.splits)
    apply (metis namespace.select_convs(8) sum.distinct(1) old.sum.exhaust)
    done
  then show ?thesis by (auto simp: notebook_def bind_err_def)
qed

text \<open>
  C9. The chain of cell 40 binds \<open>zLevels\<close> exactly for the pressure levels 1000, 850, 700,
  500, 300 and 200 (for 850: the values from 60 to 180 in steps of 3). For any other level
  nothing is bound: every call of the frame renderer fails, with \<^verbatim>\<open>NameError\<close> once
  it reaches the contour lines, and so do the frame loop and the notebook as a whole.
\<close>

theorem zLevels_bound_only_for_listed_levels:
  "(zLevels_of p \<noteq> None) = (p \<in> {1000, 850, 700, 500, 300, 200})
   \<and> zLevels_of 850 =
       Some [60, 63, 66, 69, 72, 75, 78, 81, 84, 87, 90, 93, 96, 99, 102, 105, 108, 111, 114, 117, 120, 123, 126, 129, 132, 135, 138, 141, 144, 147, 150, 153, 156, 159, 162, 165, 168, 171, 174, 177, 180]
   \<and> (p \<notin> {1000, 850, 700, 500, 300, 200} \<and> nb_zLevels g = zLevels_of p \<longrightarrow>
        (\<forall>i fs. \<exists>e. make_sos_map g i fs = Inl e)
        \<and> (\<forall>i fs cyc. cyclic_fields g i = Inr cyc \<longrightarrow> make_sos_map g i fs = Inl NameError)
        \<and> (\<forall>fs. 0 < nFrames g \<longrightarrow> (\<exists>e. labels_cell g fs = Inl e)))
   \<and> (p \<notin> {1000, 850, 700, 500, 300, 200} \<and> pLevel cfg = p \<longrightarrow>
        (\<forall>st fs. \<exists>e. notebook cfg st fs = Inl e))"
proof -
  have a: "(zLevels_of p \<noteq> None) = (p \<in> {1000, 850, 700, 500, 300, 200})"
    by (simp add: zLevels_of_None)
  have b: "(\<forall>i fs. \<exists>e. make_sos_map g i fs = Inl e)
        \<and> (\<forall>i fs cyc. cyclic_fields g i = Inr cyc \<longrightarrow> make_sos_map g i fs = Inl NameError)
        \<and> (\<forall>fs. 0 < nFrames g \<longrightarrow> (\<exists>e. labels_cell g fs = Inl e))"
    if "p \<notin> {1000, 850, 700, 500, 300, 200} \<and> nb_zLevels g = zLevels_of p"
  proof -
    from that have u: "nb_zLevels g = None" using zLevels_of_None [of p] by simp
    show ?thesis
      using make_sos_map_unbound [OF u] labels_cell_unbound [OF u] by blast
  qed
  have c: "\<forall>st fs. \<exists>e. notebook cfg st fs = Inl e"
    if "p \<notin> {1000, 850, 700, 500, 300, 200} \<and> pLevel cfg = p"
  proof -
    from that have "zLevels_of (pLevel cfg) = None" using zLevels_of_None [of p] by simp
    then show ?thesis using notebook_unbound by blast
  qed
  from b have b':
    "p \<notin> {1000, 850, 700, 500, 300, 200} \<and> nb_zLevels g = zLevels_of p \<longrightarrow>
        (\<forall>i fs. \<exists>e. make_sos_map g i fs = Inl e)
        \<and> (\<forall>i fs cyc. cyclic_fields g i = Inr cyc \<longrightarrow> make_sos_map g i fs = Inl NameError)
        \<and> (\<forall>fs. 0 < nFrames g \<longrightarrow> (\<exists>e. labels_cell g fs = Inl e))"
    by (rule impI)
  from c have c':
    "p \<notin> {1000, 850, 700, 500, 300, 200} \<and> pLevel cfg = p \<longrightarrow>
        (\<forall>st fs. \<exists>e. notebook cfg st fs = Inl e)"
    by (rule impI)
  show ?thesis
    by (rule conjI, rule a, rule conjI, rule zLevels_of_850, rule conjI, rule b', rule c')
qed

lemma cyclic_fields_zLevels_update:
  "cyclic_fields (g \<lparr> nb_zLevels := z \<rparr>) i = cyclic_fields g i"
  by (simp add: cyclic_fields_def)

theorem zLevels_bound_only_for_listed_levels_witness:
  "zLevels_of 925 = None
   \<and> make_sos_map (small_namespace \<lparr> nb_zLevels := zLevels_of 925 \<rparr>) 0 old_files = Inl NameError
   \<and> (\<exists>e. labels_cell (small_namespace \<lparr> nb_zLevels := zLevels_of 925 \<rparr>) old_files = Inl e)
   \<and> (\<exists>e. notebook (small_config \<lparr> pLevel := 925 \<rparr>) small_store old_files = Inl e)"
proof -
  let ?g = "small_namespace \<lparr> nb_zLevels := zLevels_of 925 \<rparr>"
  let ?cfg = "small_config \<lparr> pLevel := 925 \<rparr>"
  have p: "(925::int) \<notin> {1000, 850, 700, 500, 300, 200}" by simp
  obtain cyc where cyc: "cyclic_fields ?g 0 = Inr cyc"
    using small_cyclic_fields [of 0] by (auto simp: cyclic_fields_zLevels_update)
  have n: "0 < nFrames ?g" by (simp add: nFrames_def small_namespace_def)
  note t = zLevels_bound_only_for_listed_levels [of 925 ?g ?cfg]
  have g: "nb_zLevels ?g = zLevels_of 925" by simp
  have c: "pLevel ?cfg = 925" by simp
  from t p have 1: "zLevels_of 925 = None" by blast
  from t p g have "\<forall>i fs cyc. cyclic_fields ?g i = Inr cyc \<longrightarrow> make_sos_map ?g i fs = Inl NameError"
    by blast
  with cyc have 2: "make_sos_map ?g 0 old_files = Inl NameError" by blast
  from t p g have "\<forall>fs. 0 < nFrames ?g \<longrightarrow> (\<exists>e. labels_cell ?g fs = Inl e)" by blast
  with n have 3: "\<exists>e. labels_cell ?g old_files = Inl e" by blast
  from t p c have 4: "\<exists>e. notebook ?cfg small_store old_files = Inl e" by blast
  from 1 2 3 4 show ?thesis by blast
qed

subsection \<open>Loading and selecting\<close>

lemma index_of_Some: "index_of x xs = Some i \<Longrightarrow> i < length xs \<and> xs ! i = x"
  by (induction xs arbitrary: i) (auto split: if_splits)

lemma those_map_Some:
  "those (map f xs) = Some ys \<Longrightarrow>
     length ys = length xs \<and> (\<forall>k < length xs. f (xs ! k) = Some (ys ! k))"
proof (induction xs arbitrary: ys)
  case Nil
  then show ?case by simp
next
  case (Cons x xs)
  from Cons.prems obtain y ys' where
    y: "f x = Some y" and r: "those (map f xs) = Some ys'" and e: "ys = y # ys'"
    by (auto split: option.splits)
  from Cons.IH [OF r] y e show ?case by (auto simp: nth_Cons split: nat.splits)
qed

lemma sel_selection:
  assumes "sel dates lev da = Inr f"
  shows "is_selection dates lev da f"
proof -
  from assms obtain tis where
    t: "those (map (\<lambda>t. index_of t (da_time da)) dates) = Some tis"
    by (cases "those (map (\<lambda>t. index_of t (da_time da)) dates)") (simp_all add: sel_def)
  with assms obtain li where l: "index_of lev (da_lev da) = Some li"
    by (cases "index_of lev (da_lev da)") (simp_all add: sel_def)
  from assms t l have f:
    "f = \<lparr> f_time = map (\<lambda>ti. da_time da ! ti) tis, f_lev = da_lev da ! li,
           f_lat = da_lat da, f_lon = da_lon da, f_units = da_units da,
           f_values = map (\<lambda>ti. (da_values da ! ti) ! li) tis \<rparr>"
    by (simp add: sel_def)
  from index_of_Some [OF l] have li: "li < length (da_lev da)" "da_lev da ! li = lev"
    by simp_all
  from those_map_Some [OF t] have
    len: "length tis = length dates" and
    idx: "\<forall>k < length dates. index_of (dates ! k) (da_time da) = Some (tis ! k)"
    by simp_all
  have each: "\<forall>k < length dates.
      tis ! k < length (da_time da) \<and> da_time da ! (tis ! k) = dates ! k"
  proof (intro allI impI)
    fix k assume "k < length dates"
    with idx have "index_of (dates ! k) (da_time da) = Some (tis ! k)" by simp
    then show "tis ! k < length (da_time da) \<and> da_time da ! (tis ! k) = dates ! k"
      by (rule index_of_Some)
  qed
  have times: "map (\<lambda>ti. da_time da ! ti) tis = dates"
    by (rule nth_equalityI) (simp_all add: len each)
  have "\<exists>tis'. length tis' = length dates
      \<and> (\<forall>k < length dates.
            tis' ! k < length (da_time da) \<and> da_time da ! (tis' ! k) = dates ! k)
      \<and> map (\<lambda>ti. (da_values da ! ti) ! li) tis = map (\<lambda>ti. (da_values da ! ti) ! li) tis'"
    by (rule exI [of _ tis]) (simp add: len each)
  with li have "\<exists>li' < length (da_lev da). da_lev da ! li' = lev
      \<and> (\<exists>tis'. length tis' = length dates
      \<and> (\<forall>k < length dates.
            tis' ! k < length (da_time da) \<and> da_time da ! (tis' ! k) = dates ! k)
      \<and> map (\<lambda>ti. (da_values da ! ti) ! li) tis = map (\<lambda>ti. (da_values da ! ti) ! li') tis')"
    by (intro exI [of _ li] conjI)
  with times li(2) show ?thesis
    unfolding is_selection_def f by simp
qed

lemma select_fields_selection:
  assumes "select_fields cfg (dsZ, dsT, dsU, dsV) = Inr (T, U, V, Z)"
  shows "\<exists>daT daU daV daZ.
           dsT ''t'' = Some daT \<and> dsU ''u'' = Some daU \<and> dsV ''v'' = Some daV
           \<and> dsZ ''g'' = Some daZ
           \<and> is_selection (dateList cfg) (pLevel cfg) daT T
           \<and> is_selection (dateList cfg) (pLevel cfg) daU U
           \<and> is_selection (dateList cfg) (pLevel cfg) daV V
           \<and> is_selection (dateList cfg) (pLevel cfg) daZ Z"
proof -
  from assms obtain daT daU daV daZ where
    "dsT ''t'' = Some daT" "sel (dateList cfg) (pLevel cfg) daT = Inr T"
    "dsU ''u'' = Some daU" "sel (dateList cfg) (pLevel cfg) daU = Inr U"
    "dsV ''v'' = Some daV" "sel (dateList cfg) (pLevel cfg) daV = Inr V"
    "dsZ ''g'' = Some daZ" "sel (dateList cfg) (pLevel cfg) daZ = Inr Z"
    by (auto simp: select_fields_def bind_err_def getitem_def split: sum.splits option.splits)
  then show ?thesis by (auto intro: sel_selection)
qed












subsection \<open>Unit conversion\<close>

lemma convert_units_Inr:
  assumes "convert_units target f = Inr f'"
  shows "parse_unit target = Some (f_units f') \<and> same_coords f' f
         \<and> dimension_of (f_units f') = dimension_of (f_units f)
         \<and> f_values f' =
             map (map (map (\<lambda>x. from_base (f_units f') (to_base (f_units f) x)))) (f_values f)"
  using assms
  by (cases "parse_unit target")
     (auto simp: convert_units_def same_coords_def simp del: parse_unit.simps split: if_splits)

lemma parse_targets:
  "parse_unit ''dam'' = Some Decameter" "parse_unit ''kts'' = Some Knot"
  "parse_unit ''degC'' = Some DegC"
  by simp_all

lemma convert_fields_Inr:
  assumes "convert_fields (T, U, V, Z) = Inr (T', U', V', Z')"
  shows "convert_units ''dam'' Z = Inr Z' \<and> convert_units ''kts'' U = Inr U'
         \<and> convert_units ''kts'' V = Inr V' \<and> convert_units ''degC'' T = Inr T'"
  using assms by (auto simp: convert_fields_def bind_err_def split: sum.splits)

lemma convert_from_meter:
  "f_units f = Meter \<Longrightarrow>
     convert_units ''dam'' f =
       Inr (f \<lparr> f_units := Decameter, f_values := map (map (map (\<lambda>x. x / 10))) (f_values f) \<rparr>)"
  by (simp add: convert_units_def)

lemma convert_from_mps:
  "f_units f = MeterPerSecond \<Longrightarrow>
     convert_units ''kts'' f =
       Inr (f \<lparr> f_units := Knot,
               f_values := map (map (map (\<lambda>x. x * 3600 / 1852))) (f_values f) \<rparr>)"
  by (simp add: convert_units_def)

lemma convert_from_kelvin:
  "f_units f = Kelvin \<Longrightarrow>
     convert_units ''degC'' f =
       Inr (f \<lparr> f_units := DegC,
               f_values := map (map (map (\<lambda>x. x - 273.15))) (f_values f) \<rparr>)"
  by (simp add: convert_units_def)

text \<open>
  C6. Whenever the conversion succeeds, \<open>Z\<close> is in decameters, \<open>U\<close> and \<open>V\<close> in knots and
  \<open>T\<close> in degrees Celsius, on the coordinates they had. From meters, meters per second and
  kelvins it succeeds: heights are divided by 10, winds multiplied by 3600/1852, and
  273.15 is subtracted from the temperatures (in exact arithmetic); nothing but the unit
  and the values of the four fields changes.
\<close>

theorem units_converted:
  "(convert_fields (T, U, V, Z) = Inr (T', U', V', Z') \<longrightarrow>
      f_units Z' = Decameter \<and> f_units U' = Knot \<and> f_units V' = Knot \<and> f_units T' = DegC
      \<and> same_coords Z' Z \<and> same_coords U' U \<and> same_coords V' V \<and> same_coords T' T)
   \<and> (f_units Z = Meter \<and> f_units U = MeterPerSecond \<and> f_units V = MeterPerSecond
        \<and> f_units T = Kelvin \<longrightarrow>
        convert_fields (T, U, V, Z) =
          Inr (T \<lparr> f_units := DegC,
                   f_values := map (map (map (\<lambda>x. x - 273.15))) (f_values T) \<rparr>,
               U \<lparr> f_units := Knot,
                   f_values := map (map (map (\<lambda>x. x * 3600 / 1852))) (f_values U) \<rparr>,
               V \<lparr> f_units := Knot,
                   f_values := map (map (map (\<lambda>x. x * 3600 / 1852))) (f_values V) \<rparr>,
               Z \<lparr> f_units := Decameter,
                   f_values := map (map (map (\<lambda>x. x / 10))) (f_values Z) \<rparr>))"
proof (intro conjI impI)
  assume c: "convert_fields (T, U, V, Z) = Inr (T', U', V', Z')"
  note each = convert_fields_Inr [OF c]
  from each have z: "convert_units ''dam'' Z = Inr Z'" by simp
  from each have u: "convert_units ''kts'' U = Inr U'" by simp
  from each have v: "convert_units ''kts'' V = Inr V'" by simp
  from each have t: "convert_units ''degC'' T = Inr T'" by simp
  show "f_units Z' = Decameter" using convert_units_Inr [OF z] by (simp only: parse_targets) simp
  show "f_units U' = Knot" using convert_units_Inr [OF u] by (simp only: parse_targets) simp
  show "f_units V' = Knot" using convert_units_Inr [OF v] by (simp only: parse_targets) simp
  show "f_units T' = DegC" using convert_units_Inr [OF t] by (simp only: parse_targets) simp
  show "same_coords Z' Z" using convert_units_Inr [OF z] by blast
  show "same_coords U' U" using convert_units_Inr [OF u] by blast
  show "same_coords V' V" using convert_units_Inr [OF v] by blast
  show "same_coords T' T" using convert_units_Inr [OF t] by blast
next
  assume "f_units Z = Meter \<and> f_units U = MeterPerSecond \<and> f_units V = MeterPerSecond
        \<and> f_units T = Kelvin"
  then show "convert_fields (T, U, V, Z) =
          Inr (T \<lparr> f_units := DegC,
                   f_values := map (map (map (\<lambda>x. x - 273.15))) (f_values T) \<rparr>,
               U \<lparr> f_units := Knot,
                   f_values := map (map (map (\<lambda>x. x * 3600 / 1852))) (f_values U) \<rparr>,
               V \<lparr> f_units := Knot,
                   f_values := map (map (map (\<lambda>x. x * 3600 / 1852))) (f_values V) \<rparr>,
               Z \<lparr> f_units := Decameter,
                   f_values := map (map (map (\<lambda>x. x / 10))) (f_values Z) \<rparr>)"
    by (simp add: convert_fields_def bind_err_def convert_from_meter convert_from_mps
        convert_from_kelvin)
qed

theorem units_converted_witness:
  "\<exists>T' U' V' Z'.
     convert_fields (small_field Kelvin 273, small_field MeterPerSecond 463,
                     small_field MeterPerSecond 0, small_field Meter 1500)
       = Inr (T', U', V', Z')
     \<and> f_units Z' = Decameter \<and> f_units U' = Knot \<and> f_units V' = Knot \<and> f_units T' = DegC
     \<and> f_values Z' ! 0 = [[150, 150.1], [150.2, 150.3]]
     \<and> f_values U' ! 0 ! 0 ! 0 = 900
     \<and> f_values T' ! 0 = [[- 0.15, 0.85], [1.85, 2.85]]
     \<and> f_lon Z' = [- 180, 0] \<and> f_time T' = [12193920, 12194280]"
proof -
  let ?T = "small_field Kelvin 273" and ?U = "small_field MeterPerSecond 463"
    and ?V = "small_field MeterPerSecond 0" and ?Z = "small_field Meter 1500"
  have u: "f_units ?Z = Meter \<and> f_units ?U = MeterPerSecond \<and> f_units ?V = MeterPerSecond
        \<and> f_units ?T = Kelvin"
    by (simp add: small_field_def)
  from units_converted [of ?T ?U ?V ?Z] u
  have c: "convert_fields (?T, ?U, ?V, ?Z) =
          Inr (?T \<lparr> f_units := DegC,
                   f_values := map (map (map (\<lambda>x. x - 273.15))) (f_values ?T) \<rparr>,
               ?U \<lparr> f_units := Knot,
                   f_values := map (map (map (\<lambda>x. x * 3600 / 1852))) (f_values ?U) \<rparr>,
               ?V \<lparr> f_units := Knot,
                   f_values := map (map (map (\<lambda>x. x * 3600 / 1852))) (f_values ?V) \<rparr>,
               ?Z \<lparr> f_units := Decameter,
                   f_values := map (map (map (\<lambda>x. x / 10))) (f_values ?Z) \<rparr>)"
    by blast
  show ?thesis
    unfolding c by (simp add: small_field_def)
qed

subsection \<open>The cyclic point\<close>

lemma np_diff_Cons:
  assumes "np_diff xs = d0 # ds"
  shows "2 \<le> length xs \<and> d0 = xs ! 1 - xs ! 0"
proof -
  from assms have "[0..<length xs - 1] \<noteq> []" by (auto simp: np_diff_def)
  then have l: "0 < length xs - 1" by simp
  then have "[0..<length xs - 1] = 0 # [1..<length xs - 1]" by (simp add: upt_rec)
  with assms have "d0 = xs ! 1 - xs ! 0" by (simp add: np_diff_def)
  with l show ?thesis by simp
qed

lemma add_cyclic_point_Inr:
  assumes "add_cyclic_point data coord = Inr (cdata, ccoord)"
  shows "2 \<le> length coord
         \<and> list_all (\<lambda>row. length row = length coord) data
         \<and> cdata = map (\<lambda>row. row @ [row ! 0]) data
         \<and> ccoord = coord @ [last coord + (coord ! 1 - coord ! 0)]"
proof -
  from assms have rows: "list_all (\<lambda>row. length row = length coord) data"
    by (auto simp: add_cyclic_point_def split: if_splits)
  from assms obtain d0 ds where d: "np_diff coord = d0 # ds"
    by (cases "np_diff coord") (auto simp: add_cyclic_point_def split: if_splits)
  from np_diff_Cons [OF d] have len: "2 \<le> length coord" and d0: "d0 = coord ! 1 - coord ! 0"
    by simp_all
  from assms rows d have res:
    "cdata = map (\<lambda>row. row @ take 1 row) data" "ccoord = coord @ [last coord + d0]"
    by (auto simp: add_cyclic_point_def split: if_splits)
  have "take 1 row = [row ! 0]" if "row \<in> set data" for row
  proof -
    from rows that have "length row = length coord" by (simp add: list_all_iff)
    with len have "row \<noteq> []" by auto
    then show ?thesis by (cases row) simp_all
  qed
  then have "map (\<lambda>row. row @ take 1 row) data = map (\<lambda>row. row @ [row ! 0]) data"
    by simp
  with res rows len d0 show ?thesis by simp
qed


lemma cyclic_fields_Inr:
  assumes "cyclic_fields g i = Inr (Zcyc, Tcyc, Ucyc, Vcyc, clons)"
  shows "\<exists>Z0 T0 U0 V0.
           isel (nb_Z g) i = Inr Z0 \<and> add_cyclic_point Z0 (nb_lons g) = Inr (Zcyc, clons)
           \<and> isel (nb_T g) i = Inr T0 \<and> add_cyclic_point T0 (nb_lons g) = Inr (Tcyc, clons)
           \<and> isel (nb_U g) i = Inr U0 \<and> add_cyclic_point U0 (nb_lons g) = Inr (Ucyc, clons)
           \<and> isel (nb_V g) i = Inr V0 \<and> add_cyclic_point V0 (nb_lons g) = Inr (Vcyc, clons)"
proof -
  from assms obtain Z0 cZ T0 cT U0 cU V0 where
    z: "isel (nb_Z g) i = Inr Z0" "add_cyclic_point Z0 (nb_lons g) = Inr (Zcyc, cZ)" and
    t: "isel (nb_T g) i = Inr T0" "add_cyclic_point T0 (nb_lons g) = Inr (Tcyc, cT)" and
    u: "isel (nb_U g) i = Inr U0" "add_cyclic_point U0 (nb_lons g) = Inr (Ucyc, cU)" and
    v: "isel (nb_V g) i = Inr V0" "add_cyclic_point V0 (nb_lons g) = Inr (Vcyc, clons)"
    unfolding cyclic_fields_def bind_err_def
    by (auto split: sum.splits prod.splits)
  have "cZ = clons" "cT = clons" "cU = clons"
    using add_cyclic_point_Inr [OF z(2)] add_cyclic_point_Inr [OF t(2)]
      add_cyclic_point_Inr [OF u(2)] add_cyclic_point_Inr [OF v(2)]
    by simp_all
  with z t u v show ?thesis by blast
qed






subsection \<open>Shared coordinates\<close>

lemma before_frames_namespace:
  assumes "before_frames cfg st fs = Inr (g, fs1)"
  shows "\<exists>dss sl T U V Z r fs2.
           open_datasets st cfg = Inr dss \<and> select_fields cfg dss = Inr sl
           \<and> convert_fields sl = Inr (T, U, V, Z)
           \<and> g = \<lparr> nb_Z = Z, nb_T = T, nb_U = U, nb_V = V,
                     nb_lons = f_lon T, nb_lats = f_lat T, nb_times = f_time T,
                     nb_zLevels = zLevels_of (pLevel cfg), nb_pLevel = pLevel cfg,
                     nb_nTimes = nTimes cfg \<rparr>
           \<and> test_plot g (remove_pngs fs) = Inr (r, fs2)"
proof -
  from assms obtain dss where 1: "open_datasets st cfg = Inr dss"
    by (cases "open_datasets st cfg") (simp_all add: before_frames_def bind_err_def)
  with assms obtain sl where 2: "select_fields cfg dss = Inr sl"
    by (cases "select_fields cfg dss") (simp_all add: before_frames_def bind_err_def)
  with assms 1 obtain T U V Z where 3: "convert_fields sl = Inr (T, U, V, Z)"
    by (cases "convert_fields sl") (auto simp: before_frames_def bind_err_def)
  let ?g = "\<lparr> nb_Z = Z, nb_T = T, nb_U = U, nb_V = V,
                     nb_lons = f_lon T, nb_lats = f_lat T, nb_times = f_time T,
                     nb_zLevels = zLevels_of (pLevel cfg), nb_pLevel = pLevel cfg,
                     nb_nTimes = nTimes cfg \<rparr>"
  from assms 1 2 3 obtain r fs2 where 4: "test_plot ?g (remove_pngs fs) = Inr (r, fs2)"
    by (cases "test_plot ?g (remove_pngs fs)")
       (auto simp: before_frames_def bind_err_def Let_def)
  from assms 1 2 3 4 have "g = ?g"
    by (auto simp: before_frames_def bind_err_def Let_def split: prod.splits)
  with 1 2 3 4 show ?thesis by blast
qed

lemma test_plot_then_frame:
  assumes "test_plot g fs = Inr r"
  shows "\<exists>fs''. make_sos_map g 0 fs' = Inr fs''"
proof -
  from assms obtain Z0 where z: "isel (nb_Z g) 0 = Inr Z0"
    by (cases "isel (nb_Z g) 0") (simp_all add: test_plot_def bind_err_def)
  with assms obtain T0 where t: "isel (nb_T g) 0 = Inr T0"
    by (cases "isel (nb_T g) 0") (simp_all add: test_plot_def bind_err_def)
  with assms z obtain U0 where u: "isel (nb_U g) 0 = Inr U0"
    by (cases "isel (nb_U g) 0") (simp_all add: test_plot_def bind_err_def)
  with assms z t obtain V0 where v: "isel (nb_V g) 0 = Inr V0"
    by (cases "isel (nb_V g) 0") (simp_all add: test_plot_def bind_err_def)
  note i = z t u v
  from assms i obtain cz where cz: "add_cyclic_point Z0 (nb_lons g) = Inr cz"
    by (cases "add_cyclic_point Z0 (nb_lons g)") (simp_all add: test_plot_def bind_err_def)
  with assms i obtain ct where ct: "add_cyclic_point T0 (nb_lons g) = Inr ct"
    by (cases "add_cyclic_point T0 (nb_lons g)")
       (simp_all add: test_plot_def bind_err_def split: prod.splits)
  with assms i cz obtain cu where cu: "add_cyclic_point U0 (nb_lons g) = Inr cu"
    by (cases "add_cyclic_point U0 (nb_lons g)")
       (simp_all add: test_plot_def bind_err_def split: prod.splits)
  with assms i cz ct obtain cv where cv: "add_cyclic_point V0 (nb_lons g) = Inr cv"
    by (cases "add_cyclic_point V0 (nb_lons g)")
       (simp_all add: test_plot_def bind_err_def split: prod.splits)
  from assms i cz ct cu cv obtain zl where zl: "nb_zLevels g = Some zl"
    by (cases "nb_zLevels g") (simp_all add: test_plot_def bind_err_def split: prod.splits)
  from i cz ct cu cv zl show ?thesis
    by (simp add: make_sos_map_def cyclic_fields_def bind_err_def split: prod.splits)
qed

lemma is_selection_coords:
  "is_selection dates lev da f \<Longrightarrow>
     f_time f = dates \<and> f_lev f = lev \<and> f_lat f = da_lat da \<and> f_lon f = da_lon da"
  by (simp add: is_selection_def)

lemma cyclic_rows:
  assumes "add_cyclic_point data coord = Inr (cdata, ccoord)"
  shows "list_all (\<lambda>row. length row = length ccoord) cdata"
proof -
  note r = add_cyclic_point_Inr [OF assms]
  from r have "list_all (\<lambda>row. length row = length coord) data" by simp
  moreover from r have "cdata = map (\<lambda>row. row @ [row ! 0]) data" by simp
  moreover from r have "ccoord = coord @ [last coord + (coord ! 1 - coord ! 0)]" by simp
  ultimately show ?thesis by (simp add: list_all_iff)
qed


lemma select_fields_coords:
  assumes "select_fields cfg (dsZ, dsT, dsU, dsV) = Inr (T, U, V, Z)"
  shows "f_time T = dateList cfg \<and> f_time U = dateList cfg \<and> f_time V = dateList cfg
         \<and> f_time Z = dateList cfg
         \<and> f_lev T = pLevel cfg \<and> f_lev U = pLevel cfg \<and> f_lev V = pLevel cfg
         \<and> f_lev Z = pLevel cfg
         \<and> (shared_grid (dsZ, dsT, dsU, dsV) =
              (same_coords U T \<and> same_coords V T \<and> same_coords Z T))"
proof -
  from select_fields_selection [OF assms] obtain daT daU daV daZ where
    d: "dsT ''t'' = Some daT" "dsU ''u'' = Some daU" "dsV ''v'' = Some daV"
      "dsZ ''g'' = Some daZ" and
    s: "is_selection (dateList cfg) (pLevel cfg) daT T"
      "is_selection (dateList cfg) (pLevel cfg) daU U"
      "is_selection (dateList cfg) (pLevel cfg) daV V"
      "is_selection (dateList cfg) (pLevel cfg) daZ Z"
    by blast
  note c = s [THEN is_selection_coords]
  from c d show ?thesis
    by (auto simp: shared_grid_def same_coords_def)
qed

lemma same_coords_trans:
  "same_coords a b \<Longrightarrow> same_coords b c \<Longrightarrow> same_coords a c"
  by (simp add: same_coords_def)

lemma same_coords_sym: "same_coords a b \<Longrightarrow> same_coords b a"
  by (simp add: same_coords_def)

lemma convert_fields_coords:
  assumes "convert_fields (T, U, V, Z) = Inr (T', U', V', Z')"
  shows "same_coords T' T \<and> same_coords U' U \<and> same_coords V' V \<and> same_coords Z' Z"
proof -
  note each = convert_fields_Inr [OF assms]
  from each have "convert_units ''dam'' Z = Inr Z'" "convert_units ''kts'' U = Inr U'"
    "convert_units ''kts'' V = Inr V'" "convert_units ''degC'' T = Inr T'"
    by simp_all
  from this [THEN convert_units_Inr] show ?thesis by simp
qed

text \<open>
  C3 (as amended). After the selection the four fields have the same times (those of
  \<open>dateList\<close>) and the same level; they have the same latitudes and longitudes exactly when
  the variables of the four files do, which the notebook does not check. The unit
  conversion keeps the coordinates of each field. So when the four files are on one grid,
  the coordinates \<open>lons\<close>, \<open>lats\<close>, \<open>times\<close> taken from \<open>T\<close> are those of all four fields
  in the plotting cells; and the cyclic padding of a frame gives four arrays that each
  have as many columns as the padded longitudes.
\<close>

theorem shared_coordinates:
  "(select_fields cfg (dsZ, dsT, dsU, dsV) = Inr (T, U, V, Z) \<longrightarrow>
      f_time T = dateList cfg \<and> f_time U = dateList cfg \<and> f_time V = dateList cfg
      \<and> f_time Z = dateList cfg
      \<and> f_lev T = pLevel cfg \<and> f_lev U = pLevel cfg \<and> f_lev V = pLevel cfg
      \<and> f_lev Z = pLevel cfg
      \<and> (shared_grid (dsZ, dsT, dsU, dsV) =
           (same_coords U T \<and> same_coords V T \<and> same_coords Z T)))
   \<and> (convert_fields (T, U, V, Z) = Inr (T', U', V', Z') \<longrightarrow>
        same_coords T' T \<and> same_coords U' U \<and> same_coords V' V \<and> same_coords Z' Z
        \<and> (same_coords U T \<and> same_coords V T \<and> same_coords Z T \<longrightarrow>
             same_coords U' T' \<and> same_coords V' T' \<and> same_coords Z' T'))
   \<and> (before_frames cfg st fs = Inr (g, fs1) \<longrightarrow>
        nb_lons g = f_lon (nb_T g) \<and> nb_lats g = f_lat (nb_T g) \<and> nb_times g = f_time (nb_T g)
        \<and> f_time (nb_Z g) = nb_times g \<and> f_time (nb_U g) = nb_times g
        \<and> f_time (nb_V g) = nb_times g
        \<and> (\<forall>dss. open_datasets st cfg = Inr dss \<and> shared_grid dss \<longrightarrow>
              same_coords (nb_U g) (nb_T g) \<and> same_coords (nb_V g) (nb_T g)
              \<and> same_coords (nb_Z g) (nb_T g)))
   \<and> (cyclic_fields g' i = Inr (Zcyc, Tcyc, Ucyc, Vcyc, clons) \<longrightarrow>
        length clons = length (nb_lons g') + 1
        \<and> list_all (\<lambda>row. length row = length clons) Zcyc
        \<and> list_all (\<lambda>row. length row = length clons) Tcyc
        \<and> list_all (\<lambda>row. length row = length clons) Ucyc
        \<and> list_all (\<lambda>row. length row = length clons) Vcyc)"
proof (intro conjI)
  show "select_fields cfg (dsZ, dsT, dsU, dsV) = Inr (T, U, V, Z) \<longrightarrow>
      f_time T = dateList cfg \<and> f_time U = dateList cfg \<and> f_time V = dateList cfg
      \<and> f_time Z = dateList cfg
      \<and> f_lev T = pLevel cfg \<and> f_lev U = pLevel cfg \<and> f_lev V = pLevel cfg
      \<and> f_lev Z = pLevel cfg
      \<and> (shared_grid (dsZ, dsT, dsU, dsV) =
           (same_coords U T \<and> same_coords V T \<and> same_coords Z T))"
    by (rule impI) (rule select_fields_coords)
next
  show "convert_fields (T, U, V, Z) = Inr (T', U', V', Z') \<longrightarrow>
        same_coords T' T \<and> same_coords U' U \<and> same_coords V' V \<and> same_coords Z' Z
        \<and> (same_coords U T \<and> same_coords V T \<and> same_coords Z T \<longrightarrow>
             same_coords U' T' \<and> same_coords V' T' \<and> same_coords Z' T')"
  proof
    assume "convert_fields (T, U, V, Z) = Inr (T', U', V', Z')"
    from convert_fields_coords [OF this] show
      "same_coords T' T \<and> same_coords U' U \<and> same_coords V' V \<and> same_coords Z' Z
        \<and> (same_coords U T \<and> same_coords V T \<and> same_coords Z T \<longrightarrow>
             same_coords U' T' \<and> same_coords V' T' \<and> same_coords Z' T')"
      by (simp add: same_coords_def)
  qed
next
  show "before_frames cfg st fs = Inr (g, fs1) \<longrightarrow>
        nb_lons g = f_lon (nb_T g) \<and> nb_lats g = f_lat (nb_T g) \<and> nb_times g = f_time (nb_T g)
        \<and> f_time (nb_Z g) = nb_times g \<and> f_time (nb_U g) = nb_times g
        \<and> f_time (nb_V g) = nb_times g
        \<and> (\<forall>dss. open_datasets st cfg = Inr dss \<and> shared_grid dss \<longrightarrow>
              same_coords (nb_U g) (nb_T g) \<and> same_coords (nb_V g) (nb_T g)
              \<and> same_coords (nb_Z g) (nb_T g))"
  proof
    assume "before_frames cfg st fs = Inr (g, fs1)"
    from before_frames_namespace [OF this] obtain dss sl T1 U1 V1 Z1 where
      o: "open_datasets st cfg = Inr dss" and s: "select_fields cfg dss = Inr sl" and
      c: "convert_fields sl = Inr (T1, U1, V1, Z1)" and
      g: "g = \<lparr> nb_Z = Z1, nb_T = T1, nb_U = U1, nb_V = V1,
                nb_lons = f_lon T1, nb_lats = f_lat T1, nb_times = f_time T1,
                nb_zLevels = zLevels_of (pLevel cfg), nb_pLevel = pLevel cfg,
                nb_nTimes = nTimes cfg \<rparr>"
      by blast
    obtain dsZ0 dsT0 dsU0 dsV0 where dss: "dss = (dsZ0, dsT0, dsU0, dsV0)"
      by (cases dss) auto
    obtain T0 U0 V0 Z0 where sl: "sl = (T0, U0, V0, Z0)"
      by (cases sl) auto
    note sc = select_fields_coords [OF s [unfolded dss sl]]
    note cc = convert_fields_coords [OF c [unfolded sl]]
    from sc cc o dss show
      "nb_lons g = f_lon (nb_T g) \<and> nb_lats g = f_lat (nb_T g) \<and> nb_times g = f_time (nb_T g)
        \<and> f_time (nb_Z g) = nb_times g \<and> f_time (nb_U g) = nb_times g
        \<and> f_time (nb_V g) = nb_times g
        \<and> (\<forall>dss. open_datasets st cfg = Inr dss \<and> shared_grid dss \<longrightarrow>
              same_coords (nb_U g) (nb_T g) \<and> same_coords (nb_V g) (nb_T g)
              \<and> same_coords (nb_Z g) (nb_T g))"
      unfolding g by (simp add: same_coords_def)
  qed
next
  show "cyclic_fields g' i = Inr (Zcyc, Tcyc, Ucyc, Vcyc, clons) \<longrightarrow>
        length clons = length (nb_lons g') + 1
        \<and> list_all (\<lambda>row. length row = length clons) Zcyc
        \<and> list_all (\<lambda>row. length row = length clons) Tcyc
        \<and> list_all (\<lambda>row. length row = length clons) Ucyc
        \<and> list_all (\<lambda>row. length row = length clons) Vcyc"
  proof
    assume "cyclic_fields g' i = Inr (Zcyc, Tcyc, Ucyc, Vcyc, clons)"
    from cyclic_fields_Inr [OF this] obtain Z0 T0 U0 V0 where
      a: "add_cyclic_point Z0 (nb_lons g') = Inr (Zcyc, clons)"
        "add_cyclic_point T0 (nb_lons g') = Inr (Tcyc, clons)"
        "add_cyclic_point U0 (nb_lons g') = Inr (Ucyc, clons)"
        "add_cyclic_point V0 (nb_lons g') = Inr (Vcyc, clons)"
      by blast
    from add_cyclic_point_Inr [OF a(1)] have "length clons = length (nb_lons g') + 1"
      by simp
    with a [THEN cyclic_rows] show
      "length clons = length (nb_lons g') + 1
        \<and> list_all (\<lambda>row. length row = length clons) Zcyc
        \<and> list_all (\<lambda>row. length row = length clons) Tcyc
        \<and> list_all (\<lambda>row. length row = length clons) Ucyc
        \<and> list_all (\<lambda>row. length row = length clons) Vcyc"
      by simp
  qed
qed


lemma small_shared_grid: "shared_grid small_datasets"
  by (simp add: shared_grid_def small_datasets_def small_array_def)

theorem shared_coordinates_witness:
  "shared_grid small_datasets
   \<and> (\<exists>g fs1. before_frames small_config small_store old_files = Inr (g, fs1)
         \<and> same_coords (nb_U g) (nb_T g) \<and> same_coords (nb_V g) (nb_T g)
         \<and> same_coords (nb_Z g) (nb_T g)
         \<and> nb_lons g = f_lon (nb_Z g) \<and> nb_lats g = f_lat (nb_Z g)
         \<and> nb_times g = f_time (nb_Z g))"
proof -
  obtain g fs1 where run: "before_frames small_config small_store old_files = Inr (g, fs1)"
    using small_before_frames by blast
  note t = shared_coordinates [of small_config _ _ _ _ _ _ _ _ _ _ _ _ small_store old_files g fs1,
      THEN conjunct2, THEN conjunct2, THEN conjunct1, THEN mp, OF run]
  from t have c: "nb_lons g = f_lon (nb_T g)" "nb_lats g = f_lat (nb_T g)"
    "nb_times g = f_time (nb_T g)"
    by simp_all
  from t have "\<forall>dss. open_datasets small_store small_config = Inr dss \<and> shared_grid dss \<longrightarrow>
              same_coords (nb_U g) (nb_T g) \<and> same_coords (nb_V g) (nb_T g)
              \<and> same_coords (nb_Z g) (nb_T g)"
    by simp
  with small_open_datasets small_shared_grid have
    s: "same_coords (nb_U g) (nb_T g) \<and> same_coords (nb_V g) (nb_T g)
              \<and> same_coords (nb_Z g) (nb_T g)"
    by blast
  with c have "nb_lons g = f_lon (nb_Z g)" "nb_lats g = f_lat (nb_Z g)"
    "nb_times g = f_time (nb_Z g)"
    by (simp_all add: same_coords_def)
  with run s small_shared_grid show ?thesis by blast
qed

lemma shifted_open_datasets: "open_datasets shifted_store small_config = Inr shifted_datasets"
  by (simp add: open_datasets_def small_data_path open_dataset_def shifted_store_def bind_err_def
      shifted_datasets_def)

lemma shifted_select_fields:
  "select_fields small_config shifted_datasets =
     Inr (small_field Kelvin 273, small_field MeterPerSecond 463,
          small_field MeterPerSecond 0, small_field Meter 1500 \<lparr> f_lon := [0, 180] \<rparr>)"
  by (simp add: select_fields_def shifted_datasets_def getitem_def bind_err_def sel_def
      small_dateList small_pLevel small_array_def small_field_def)

lemma shifted_before_frames:
  "\<exists>g fs1. before_frames small_config shifted_store fs = Inr (g, fs1)"
  apply (simp add: before_frames_def shifted_open_datasets shifted_select_fields bind_err_def
      small_pLevel)
  apply (simp add: convert_fields_def convert_units_def bind_err_def small_field_def)
  apply (simp add: Let_def test_plot_def isel_def add_cyclic_point_def
      np_diff_def allclose_def zLevels_of_def bind_err_def)
  done

theorem shared_coordinates_counterexample:
  "\<exists>g fs1 fs2. before_frames small_config shifted_store old_files = Inr (g, fs1)
     \<and> f_lon (nb_Z g) = [0, 180] \<and> f_lon (nb_T g) = [- 180, 0] \<and> nb_lons g = [- 180, 0]
     \<and> f_lon (nb_Z g) \<noteq> nb_lons g
     \<and> make_sos_map g 0 fs1 = Inr fs2"
proof -
  obtain g fs1 where run: "before_frames small_config shifted_store old_files = Inr (g, fs1)"
    using shifted_before_frames by blast
  from before_frames_namespace [OF run] obtain T U V Z r fs2 where
    c: "convert_fields (small_field Kelvin 273, small_field MeterPerSecond 463,
          small_field MeterPerSecond 0, small_field Meter 1500 \<lparr> f_lon := [0, 180] \<rparr>)
        = Inr (T, U, V, Z)" and
    g: "g = \<lparr> nb_Z = Z, nb_T = T, nb_U = U, nb_V = V,
              nb_lons = f_lon T, nb_lats = f_lat T, nb_times = f_time T,
              nb_zLevels = zLevels_of (pLevel small_config), nb_pLevel = pLevel small_config,
              nb_nTimes = nTimes small_config \<rparr>" and
    t: "test_plot g (remove_pngs old_files) = Inr (r, fs2)"
    by (auto simp: shifted_open_datasets shifted_select_fields)
  from convert_fields_coords [OF c] have
    "f_lon T = [- 180, 0]" "f_lon Z = [0, 180]"
    by (simp_all add: same_coords_def small_field_def)
  then have l: "f_lon (nb_Z g) = [0, 180]" "f_lon (nb_T g) = [- 180, 0]"
    "nb_lons g = [- 180, 0]"
    by (simp_all add: g)
  then have n: "f_lon (nb_Z g) \<noteq> nb_lons g" by simp
  obtain fs3 where "make_sos_map g 0 fs1 = Inr fs3"
    using test_plot_then_frame [OF t] by blast
  with run l n show ?thesis by blast
qed

end
